theory Spec2Isabelle
  imports Complex_Main
begin

section \<open>Conventions of the embedding\<close>

text \<open>
  The game of \<^verbatim>\<open>game.py\<close> is embedded function by function. Every class is a record,
  every method takes the object and returns the updated object (with the method's return
  value where it has one). An exception is a value of \<open>error\<close>, and a method that can raise
  returns \<open>error + 'a\<close>.

  Time stamps are Python floats in the source. They are modelled as real numbers, so the
  comparisons of the source (\<open>current_time - last_move_time >= MOVEMENT_COOLDOWN\<close>) are
  exact. The wall clock (\<^verbatim>\<open>time.time()\<close>) is an argument \<open>now\<close> of every method that
  reads it; a method that reads the clock more than once is given one reading.
  Pixel and tile coordinates are integers; \<open>div\<close> on \<open>int\<close> rounds towards minus infinity,
  as Python's \<^verbatim>\<open>//\<close> does.
\<close>

datatype error = KeyError | IndexError | ValueError | AttributeError | FileNotFoundError

definition TILE_SIZE :: int where
  "TILE_SIZE = 16"

definition MOVEMENT_COOLDOWN :: real where
  "MOVEMENT_COOLDOWN = 15 / 100"

section \<open>The collision grid\<close>

text \<open>
  \<^verbatim>\<open>collision_grid\<close> is a list of rows, indexed \<^verbatim>\<open>[tile_y][tile_x]\<close>. Python evaluates the
  four tests of \<^verbatim>\<open>is_tile_blocked\<close> from left to right and stops at the first true one, so
  \<^verbatim>\<open>collision_grid[0]\<close> is read only when \<open>0 \<le> tile_y < len(collision_grid)\<close>, where row 0
  exists. The final read \<^verbatim>\<open>collision_grid[tile_y][tile_x]\<close> raises IndexError when row
  \<open>tile_y\<close> is shorter than row 0.
\<close>

type_synonym grid = "bool list list"

definition grid_height :: "grid \<Rightarrow> int" where
  "grid_height g = int (length g)"

definition grid_width :: "grid \<Rightarrow> int" where
  "grid_width g = (case g of [] \<Rightarrow> 0 | row0 # _ \<Rightarrow> int (length row0))"

definition is_tile_blocked :: "grid \<Rightarrow> int \<Rightarrow> int \<Rightarrow> error + bool" where
  "is_tile_blocked collision_grid tile_x tile_y =
     (if tile_x < 0 then Inr True
      else if tile_y < 0 then Inr True
      else if tile_y \<ge> int (length collision_grid) then Inr True
      else if tile_x \<ge> int (length (collision_grid ! 0)) then Inr True
      else if tile_x < int (length (collision_grid ! nat tile_y))
        then Inr (collision_grid ! nat tile_y ! nat tile_x)
        else Inl IndexError)"

definition is_position_blocked :: "grid \<Rightarrow> int \<Rightarrow> int \<Rightarrow> error + bool" where
  "is_position_blocked collision_grid pixel_x pixel_y =
     is_tile_blocked collision_grid (pixel_x div TILE_SIZE) (pixel_y div TILE_SIZE)"

section \<open>AnimatedSprite\<close>

text \<open>
  An entry of the \<^verbatim>\<open>animations\<close> dictionary: the frame list (row and column in the sprite
  sheet), the duration of a frame and the optional \<^verbatim>\<open>"loop"\<close> key, which
  \<^verbatim>\<open>anim_data.get("loop", True)\<close> reads with default true. The sprite sheet and the frame
  cache hold images only and are left out.
\<close>

record animation =
  frames :: "(nat \<times> nat) list"
  duration :: real
  loop :: "bool option"

record AnimatedSprite =
  animations :: "string \<rightharpoonup> animation"
  current_animation :: "string option"
  current_frame :: int
  last_frame_time :: real
  animation_finished :: bool

definition AnimatedSprite_init :: "(string \<rightharpoonup> animation) \<Rightarrow> AnimatedSprite" where
  "AnimatedSprite_init anims =
     \<lparr> animations = anims, current_animation = None, current_frame = 0,
       last_frame_time = 0, animation_finished = False \<rparr>"

definition play_animation :: "AnimatedSprite \<Rightarrow> string \<Rightarrow> bool \<Rightarrow> real \<Rightarrow> AnimatedSprite" where
  "play_animation s animation_name reset now =
     (if animations s animation_name = None then s
      else if current_animation s \<noteq> Some animation_name \<or> reset
        then s\<lparr> current_animation := Some animation_name, current_frame := 0,
                last_frame_time := now, animation_finished := False \<rparr>
        else s)"

text \<open>
  \<^verbatim>\<open>if not self.current_animation\<close> is true for \<^verbatim>\<open>None\<close> and for the empty string.
  \<^verbatim>\<open>self.animations[self.current_animation]\<close> raises KeyError for a name that is not a key.
\<close>

definition loops :: "animation \<Rightarrow> bool" where
  "loops anim_data = (case loop anim_data of None \<Rightarrow> True | Some b \<Rightarrow> b)"

definition AnimatedSprite_update :: "AnimatedSprite \<Rightarrow> real \<Rightarrow> error + AnimatedSprite" where
  "AnimatedSprite_update s current_time =
     (case current_animation s of
        None \<Rightarrow> Inr s
      | Some name \<Rightarrow>
          if name = [] \<or> animation_finished s then Inr s
          else (case animations s name of
                  None \<Rightarrow> Inl KeyError
                | Some anim_data \<Rightarrow>
                    if current_time - last_frame_time s \<ge> duration anim_data then
                      (let s1 = s\<lparr> current_frame := current_frame s + 1,
                                    last_frame_time := current_time \<rparr>
                       in if current_frame s1 \<ge> int (length (frames anim_data)) then
                            (if loops anim_data
                               then Inr (s1\<lparr> current_frame := 0 \<rparr>)
                               else Inr (s1\<lparr> current_frame := int (length (frames anim_data)) - 1,
                                            animation_finished := True \<rparr>))
                          else Inr s1)
                    else Inr s))"

text \<open>A run of \<^verbatim>\<open>update\<close> calls, one per clock reading, stopping at the first exception.\<close>

fun AnimatedSprite_updates :: "AnimatedSprite \<Rightarrow> real list \<Rightarrow> error + AnimatedSprite" where
  "AnimatedSprite_updates s [] = Inr s"
| "AnimatedSprite_updates s (t # ts) =
     (case AnimatedSprite_update s t of Inl e \<Rightarrow> Inl e | Inr s' \<Rightarrow> AnimatedSprite_updates s' ts)"

text \<open>The frame index shown after each call of a run of \<^verbatim>\<open>update\<close> calls.\<close>

fun AnimatedSprite_trace :: "AnimatedSprite \<Rightarrow> real list \<Rightarrow> error + int list" where
  "AnimatedSprite_trace s [] = Inr []"
| "AnimatedSprite_trace s (t # ts) =
     (case AnimatedSprite_update s t of
        Inl e \<Rightarrow> Inl e
      | Inr s' \<Rightarrow> (case AnimatedSprite_trace s' ts of
                    Inl e \<Rightarrow> Inl e
                  | Inr is \<Rightarrow> Inr (current_frame s' # is)))"

text \<open>
  \<open>spaced d t0 ts\<close>: every clock reading of \<open>ts\<close> is at least \<open>d\<close> after the one before
  it, the first one at least \<open>d\<close> after \<open>t0\<close>.
\<close>

fun spaced :: "real \<Rightarrow> real \<Rightarrow> real list \<Rightarrow> bool" where
  "spaced d t0 [] = True"
| "spaced d t0 (t # ts) = (t - t0 \<ge> d \<and> spaced d t ts)"

section \<open>Player\<close>

definition player_animations :: "string \<rightharpoonup> animation" where
  "player_animations =
     [''idle_right'' \<mapsto> \<lparr> frames = [(0, 0), (0, 1), (0, 2)], duration = 6 / 10, loop = Some True \<rparr>,
      ''idle_left'' \<mapsto> \<lparr> frames = [(1, 0), (1, 1), (1, 2)], duration = 6 / 10, loop = Some True \<rparr>,
      ''walk_right'' \<mapsto>
        \<lparr> frames = [(2, 0), (2, 1), (2, 2), (2, 3)], duration = 6 / 10, loop = Some True \<rparr>,
      ''walk_left'' \<mapsto>
        \<lparr> frames = [(3, 0), (3, 1), (3, 2), (3, 3)], duration = 6 / 10, loop = Some True \<rparr>,
      ''hurt_right'' \<mapsto>
        \<lparr> frames = [(4, 1), (4, 2), (4, 3), (4, 4), (4, 5)], duration = 6 / 10,
          loop = Some False \<rparr>,
      ''hurt_left'' \<mapsto>
        \<lparr> frames = [(5, 1), (5, 2), (5, 3), (5, 4), (5, 5)], duration = 6 / 10,
          loop = Some False \<rparr>]"

definition sword_animations :: "string \<rightharpoonup> animation" where
  "sword_animations =
     [''attack_left'' \<mapsto>
        \<lparr> frames = [(0, 0), (0, 1), (0, 2), (0, 3), (0, 4)], duration = 1 / 10,
          loop = Some False \<rparr>,
      ''attack_right'' \<mapsto>
        \<lparr> frames = [(2, 0), (2, 1), (2, 2), (2, 3), (2, 4)], duration = 1 / 10,
          loop = Some False \<rparr>]"

record Player =
  p_x :: int
  p_y :: int
  last_move_time :: real
  facing_direction :: string
  is_moving :: bool
  movement_timer :: real
  is_attacking :: bool
  attack_start_time :: real
  attack_duration :: real
  is_hurt :: bool
  hurt_start_time :: real
  hurt_duration :: real
  invincibility_duration :: real
  is_invincible :: bool
  invincibility_start_time :: real
  max_health :: int
  current_health :: int
  sprite :: AnimatedSprite
  sword_sprite :: AnimatedSprite

text \<open>The constructor: the position is snapped to the grid, the idle clip starts.\<close>

definition Player_init :: "int \<Rightarrow> int \<Rightarrow> real \<Rightarrow> Player" where
  "Player_init x y now =
     \<lparr> p_x = (x div TILE_SIZE) * TILE_SIZE,
       p_y = (y div TILE_SIZE) * TILE_SIZE,
       last_move_time = 0,
       facing_direction = ''right'',
       is_moving = False,
       movement_timer = 0,
       is_attacking = False,
       attack_start_time = 0,
       attack_duration = 5 / 10,
       is_hurt = False,
       hurt_start_time = 0,
       hurt_duration = 1,
       invincibility_duration = 15 / 10,
       is_invincible = False,
       invincibility_start_time = 0,
       max_health = 3,
       current_health = 3,
       sprite = play_animation (AnimatedSprite_init player_animations) ''idle_right'' True now,
       sword_sprite = AnimatedSprite_init sword_animations \<rparr>"

text \<open>\<^verbatim>\<open>start_attack\<close>; the sound effect is an external call and is left out.\<close>

definition start_attack :: "Player \<Rightarrow> real \<Rightarrow> bool \<times> Player" where
  "start_attack p now =
     (if is_attacking p \<or> is_hurt p then (False, p)
      else
        (True,
         p\<lparr> is_attacking := True,
            attack_start_time := now,
            sword_sprite :=
              (if facing_direction p = ''right''
               then play_animation (sword_sprite p) ''attack_right'' True now
               else play_animation (sword_sprite p) ''attack_left'' True now) \<rparr>))"

definition take_damage :: "Player \<Rightarrow> int \<Rightarrow> real \<Rightarrow> bool \<times> Player" where
  "take_damage p damage now =
     (if is_invincible p \<or> is_hurt p then (False, p)
      else
        (True,
         p\<lparr> current_health := (if current_health p - damage < 0 then 0
                                else current_health p - damage),
            is_hurt := True,
            hurt_start_time := now,
            is_invincible := True,
            invincibility_start_time := now,
            is_attacking := False,
            sprite :=
              (if facing_direction p = ''right''
               then play_animation (sprite p) ''hurt_right'' True now
               else play_animation (sprite p) ''hurt_left'' True now) \<rparr>))"

definition is_dead :: "Player \<Rightarrow> bool" where
  "is_dead p = (current_health p \<le> 0)"

text \<open>
  \<^verbatim>\<open>Player.update\<close>, in the order of the source. While the hurt window is open only the
  sprite advances and the method returns early.
\<close>

definition update_invincibility_state :: "Player \<Rightarrow> real \<Rightarrow> Player" where
  "update_invincibility_state p current_time =
     (if is_invincible p
        \<and> current_time - invincibility_start_time p \<ge> invincibility_duration p
      then p\<lparr> is_invincible := False \<rparr> else p)"

definition update_attack_state :: "Player \<Rightarrow> real \<Rightarrow> error + Player" where
  "update_attack_state p current_time =
     (if is_attacking p then
        (if current_time - attack_start_time p \<ge> attack_duration p
         then Inr (p\<lparr> is_attacking := False \<rparr>)
         else (case AnimatedSprite_update (sword_sprite p) current_time of
                 Inl e \<Rightarrow> Inl e
               | Inr s \<Rightarrow> Inr (p\<lparr> sword_sprite := s \<rparr>)))
      else Inr p)"

definition update_movement_timer :: "Player \<Rightarrow> real \<Rightarrow> Player" where
  "update_movement_timer p current_time =
     (if is_moving p then p\<lparr> movement_timer := current_time + 3 / 10 \<rparr> else p)"

definition update_animation_state :: "Player \<Rightarrow> real \<Rightarrow> Player" where
  "update_animation_state p current_time =
     (let show_walking = current_time < movement_timer p
      in if \<not> is_attacking p \<and> \<not> is_hurt p then
           (if show_walking then
              (if facing_direction p = ''right''
               then p\<lparr> sprite := play_animation (sprite p) ''walk_right'' False current_time \<rparr>
               else p\<lparr> sprite := play_animation (sprite p) ''walk_left'' False current_time \<rparr>)
            else
              (if facing_direction p = ''right''
               then p\<lparr> sprite := play_animation (sprite p) ''idle_right'' False current_time \<rparr>
               else p\<lparr> sprite := play_animation (sprite p) ''idle_left'' False current_time \<rparr>))
         else p)"

definition Player_update :: "Player \<Rightarrow> real \<Rightarrow> error + Player" where
  "Player_update p current_time =
     (if is_hurt p \<and> \<not> (current_time - hurt_start_time p \<ge> hurt_duration p) then
        (case AnimatedSprite_update (sprite p) current_time of
           Inl e \<Rightarrow> Inl e
         | Inr s \<Rightarrow> Inr (p\<lparr> sprite := s \<rparr>))
      else
        (let p1 = (if is_hurt p then p\<lparr> is_hurt := False \<rparr> else p);
             p2 = update_invincibility_state p1 current_time
         in case update_attack_state p2 current_time of
              Inl e \<Rightarrow> Inl e
            | Inr p3 \<Rightarrow>
                (let p4 = update_movement_timer p3 current_time;
                     p5 = update_animation_state p4 current_time
                 in case AnimatedSprite_update (sprite p5) current_time of
                      Inl e \<Rightarrow> Inl e
                    | Inr s \<Rightarrow> Inr (p5\<lparr> sprite := s, is_moving := False \<rparr>))))"

definition can_move :: "Player \<Rightarrow> real \<Rightarrow> bool" where
  "can_move p current_time =
     (if is_attacking p \<or> is_hurt p then False
      else current_time - last_move_time p \<ge> MOVEMENT_COOLDOWN)"

text \<open>
  \<^verbatim>\<open>Player.move\<close>. The facing direction is assigned after the cooldown and diagonal tests
  and before the bounds test, as in the source; \<open>moved\<close> is true exactly in the two branches
  that return \<open>True\<close>.
\<close>

definition move :: "Player \<Rightarrow> int \<Rightarrow> int \<Rightarrow> int \<Rightarrow> int \<Rightarrow> real \<Rightarrow> bool \<times> Player" where
  "move p dx dy level_width level_height current_time =
     (if \<not> can_move p current_time then (False, p)
      else if dx \<noteq> 0 \<and> dy \<noteq> 0 then (False, p)
      else
        (let p1 = (if dx > 0 then p\<lparr> facing_direction := ''right'' \<rparr>
                   else if dx < 0 then p\<lparr> facing_direction := ''left'' \<rparr>
                   else p);
             new_x = p_x p1 + dx * TILE_SIZE;
             new_y = p_y p1 + dy * TILE_SIZE
         in if dx \<noteq> 0 then
              (if new_x \<ge> 0 \<and> new_x \<le> level_width - TILE_SIZE
               then (True, p1\<lparr> p_x := new_x, last_move_time := current_time,
                               is_moving := True \<rparr>)
               else (False, p1))
            else if dy \<noteq> 0 then
              (if new_y \<ge> 0 \<and> new_y \<le> level_height - TILE_SIZE
               then (True, p1\<lparr> p_y := new_y, last_move_time := current_time,
                               is_moving := True \<rparr>)
               else (False, p1))
            else (False, p1)))"

text \<open>
  What can happen to a player between two moments of the game: a frame update, a move
  request, an attack request, a damage event. \<open>player_run\<close> plays a list of them in order
  and stops at the first exception.
\<close>

datatype player_event =
    Update real
  | Move int int int int real
  | Attack real
  | Damage int real

fun player_step :: "Player \<Rightarrow> player_event \<Rightarrow> error + Player" where
  "player_step p (Update now) = Player_update p now"
| "player_step p (Move dx dy level_width level_height current_time) =
     Inr (snd (move p dx dy level_width level_height current_time))"
| "player_step p (Attack now) = Inr (snd (start_attack p now))"
| "player_step p (Damage damage now) = Inr (snd (take_damage p damage now))"

fun player_run :: "Player \<Rightarrow> player_event list \<Rightarrow> error + Player" where
  "player_run p [] = Inr p"
| "player_run p (ev # evs) =
     (case player_step p ev of Inl e \<Rightarrow> Inl e | Inr p' \<Rightarrow> player_run p' evs)"

fun event_time :: "player_event \<Rightarrow> real" where
  "event_time (Update now) = now"
| "event_time (Move dx dy level_width level_height current_time) = current_time"
| "event_time (Attack now) = now"
| "event_time (Damage damage now) = now"

fun is_damage :: "player_event \<Rightarrow> bool" where
  "is_damage (Damage damage now) = True"
| "is_damage ev = False"

text \<open>
  A sprite with one looping clip of three frames of 0.1 s each, the clip of the
  wrap-around test.
\<close>

definition three_frame_clip :: "string \<rightharpoonup> animation" where
  "three_frame_clip =
     [''spin'' \<mapsto> \<lparr> frames = [(0, 0), (0, 1), (0, 2)], duration = 1 / 10, loop = Some True \<rparr>]"

text \<open>
  A run of \<^verbatim>\<open>move\<close> calls, each with its arguments \<open>(dx, dy, level_width, level_height)\<close>
  and its clock reading; the results are the return values in order. \<open>ticks t0 dt\<close> gives
  the calls the clock readings \<open>t0\<close>, \<open>t0 + dt\<close>, \<open>t0 + 2 dt\<close>, ...
\<close>

fun moves :: "Player \<Rightarrow> ((int \<times> int \<times> int \<times> int) \<times> real) list \<Rightarrow> bool list \<times> Player" where
  "moves p [] = ([], p)"
| "moves p (((dx, dy, level_width, level_height), current_time) # calls) =
     (let r = move p dx dy level_width level_height current_time;
          rs = moves (snd r) calls
      in (fst r # fst rs, snd rs))"

fun ticks :: "real \<Rightarrow> real \<Rightarrow> 'a list \<Rightarrow> ('a \<times> real) list" where
  "ticks t0 dt [] = []"
| "ticks t0 dt (a # as) = (a, t0) # ticks (t0 + dt) dt as"

definition successes :: "bool list \<Rightarrow> nat" where
  "successes rs = length (filter (\<lambda>r. r) rs)"

text \<open>
  The invariant under which \<^verbatim>\<open>update\<close> cannot raise KeyError: the current clip of a sprite,
  when there is one, is a key of its \<^verbatim>\<open>animations\<close>. The constructors establish it and
  \<^verbatim>\<open>play_animation\<close>, which ignores unknown names, keeps it.
\<close>

definition sprite_ok :: "AnimatedSprite \<Rightarrow> bool" where
  "sprite_ok s =
     (case current_animation s of None \<Rightarrow> True | Some name \<Rightarrow> animations s name \<noteq> None)"

definition player_ok :: "Player \<Rightarrow> bool" where
  "player_ok p = (sprite_ok (sprite p) \<and> sprite_ok (sword_sprite p))"

section \<open>Enemy\<close>

definition enemy_animations :: "string \<rightharpoonup> animation" where
  "enemy_animations =
     [''idle_right'' \<mapsto> \<lparr> frames = [(0, 0), (0, 1)], duration = 6 / 10, loop = Some True \<rparr>,
      ''idle_left'' \<mapsto> \<lparr> frames = [(1, 0), (1, 1)], duration = 6 / 10, loop = Some True \<rparr>,
      ''walk_right'' \<mapsto> \<lparr> frames = [(2, 0), (2, 1), (2, 2)], duration = 4 / 10, loop = Some True \<rparr>,
      ''walk_left'' \<mapsto> \<lparr> frames = [(3, 0), (3, 1), (3, 2)], duration = 4 / 10, loop = Some True \<rparr>]"

record Enemy =
  e_x :: int
  e_y :: int
  enemy_type :: string
  enemy_movement :: string
  blocks :: int
  start_x :: int
  start_y :: int
  e_facing_direction :: string
  movement_state :: string
  blocks_moved :: int
  idle_start_time :: real
  idle_duration :: real
  e_last_move_time :: real
  move_cooldown :: real
  e_sprite :: AnimatedSprite

definition Enemy_init :: "int \<Rightarrow> int \<Rightarrow> string \<Rightarrow> string \<Rightarrow> int \<Rightarrow> real \<Rightarrow> Enemy" where
  "Enemy_init x y etype emovement eblocks now =
     \<lparr> e_x = (x div TILE_SIZE) * TILE_SIZE,
       e_y = (y div TILE_SIZE) * TILE_SIZE,
       enemy_type = etype,
       enemy_movement = emovement,
       blocks = eblocks,
       start_x = (x div TILE_SIZE) * TILE_SIZE,
       start_y = (y div TILE_SIZE) * TILE_SIZE,
       e_facing_direction = ''right'',
       movement_state = ''moving'',
       blocks_moved = 0,
       idle_start_time = 0,
       idle_duration = 3,
       e_last_move_time = 0,
       move_cooldown = 3 / 10,
       e_sprite = play_animation (AnimatedSprite_init enemy_animations) ''walk_right'' True now \<rparr>"

text \<open>
  The step \<open>(dx, dy)\<close> of an enemy: along its axis, in its facing direction (for a
  vertical enemy \<^verbatim>\<open>'right'\<close> means down). A movement type that is neither
  \<^verbatim>\<open>'horizontal'\<close> nor \<^verbatim>\<open>'vertical'\<close> gives \<open>(0, 0)\<close>.
\<close>

definition enemy_direction :: "Enemy \<Rightarrow> int \<times> int" where
  "enemy_direction e =
     (if enemy_movement e = ''horizontal''
        then (if e_facing_direction e = ''right'' then 1 else - 1, 0)
      else if enemy_movement e = ''vertical''
        then (0, if e_facing_direction e = ''right'' then 1 else - 1)
      else (0, 0))"

text \<open>
  The clip chosen by the four copies of the \<^verbatim>\<open>if enemy_movement == ...\<close> block: the clip
  \<open>kind_right\<close> or \<open>kind_left\<close> by facing direction, for both axes, and none for another
  movement type.
\<close>

definition enemy_play :: "Enemy \<Rightarrow> string \<Rightarrow> bool \<Rightarrow> real \<Rightarrow> Enemy" where
  "enemy_play e kind reset now =
     (if enemy_movement e = ''horizontal'' \<or> enemy_movement e = ''vertical'' then
        (if e_facing_direction e = ''right''
         then e\<lparr> e_sprite := play_animation (e_sprite e) (kind @ ''_right'') reset now \<rparr>
         else e\<lparr> e_sprite := play_animation (e_sprite e) (kind @ ''_left'') reset now \<rparr>)
      else e)"

text \<open>
  The movement part of \<^verbatim>\<open>Enemy.update\<close>. \<open>level_loader\<close> is the collision grid of the
  loader passed in, or \<open>None\<close> for the default argument; the blocking query is the only
  use the method makes of the loader.
\<close>

definition enemy_ai :: "Enemy \<Rightarrow> grid option \<Rightarrow> real \<Rightarrow> error + Enemy" where
  "enemy_ai e level_loader current_time =
     (if movement_state e = ''moving'' then
        (if current_time - e_last_move_time e \<ge> move_cooldown e then
           (let dx = fst (enemy_direction e);
                dy = snd (enemy_direction e);
                new_x = e_x e + dx * TILE_SIZE;
                new_y = e_y e + dy * TILE_SIZE
            in case (case level_loader of
                       None \<Rightarrow> Inr True
                     | Some g \<Rightarrow> (case is_position_blocked g new_x new_y of
                                    Inl err \<Rightarrow> Inl err
                                  | Inr blocked \<Rightarrow> Inr (\<not> blocked))) of
                 Inl err \<Rightarrow> Inl err
               | Inr free \<Rightarrow>
                   if free then
                     (let e1 = e\<lparr> e_x := new_x, e_y := new_y,
                                   blocks_moved := blocks_moved e + 1,
                                   e_last_move_time := current_time \<rparr>
                      in if blocks_moved e1 \<ge> blocks e1
                         then Inr (enemy_play
                                (e1\<lparr> movement_state := ''idle'',
                                      idle_start_time := current_time,
                                      blocks_moved := 0 \<rparr>) ''idle'' True current_time)
                         else Inr e1)
                   else Inr (enemy_play
                          (e\<lparr> movement_state := ''idle'',
                               idle_start_time := current_time,
                               blocks_moved := 0 \<rparr>) ''idle'' True current_time))
         else Inr (enemy_play e ''walk'' False current_time))
      else if movement_state e = ''idle'' then
        (if current_time - idle_start_time e \<ge> idle_duration e then
           Inr (enemy_play
             (e\<lparr> e_facing_direction :=
                    (if e_facing_direction e = ''right'' then ''left'' else ''right''),
                  movement_state := ''moving'',
                  e_last_move_time := current_time \<rparr>) ''walk'' True current_time)
         else Inr e)
      else Inr e)"

definition Enemy_update :: "Enemy \<Rightarrow> grid option \<Rightarrow> real \<Rightarrow> error + Enemy" where
  "Enemy_update e level_loader current_time =
     (case enemy_ai e level_loader current_time of
        Inl err \<Rightarrow> Inl err
      | Inr e1 \<Rightarrow> (case AnimatedSprite_update (e_sprite e1) current_time of
                    Inl err \<Rightarrow> Inl err
                  | Inr s \<Rightarrow> Inr (e1\<lparr> e_sprite := s \<rparr>)))"

section \<open>The tile map\<close>

text \<open>
  The part of a loaded TMX map that the game reads. A tile layer is the list of its cells
  \<open>(x, y, gid)\<close> in the order the layer iterates them; an object group is the list of its
  objects. \<open>tile_images\<close> is \<^verbatim>\<open>get_tile_image_by_gid\<close> (no image: \<open>None\<close>) and
  \<open>tile_frames\<close> the \<^verbatim>\<open>"frames"\<close> entry of \<^verbatim>\<open>get_tile_properties_by_gid\<close>, each frame with
  its gid and its duration in milliseconds.

  The custom properties of an object are read through \<^verbatim>\<open>getattr\<close> with a default and
  again through \<^verbatim>\<open>obj.properties.get\<close> with the same default; both read the same
  property, so each is one optional field. For \<^verbatim>\<open>blocks\<close> the only use is \<^verbatim>\<open>int(blocks)\<close>:
  \<open>IntValue n\<close> is a value that \<^verbatim>\<open>int\<close> converts to \<open>n\<close>, \<open>NotInt s\<close> a string such as
  \<^verbatim>\<open>"two"\<close> on which \<^verbatim>\<open>int\<close> raises ValueError.
\<close>

datatype blocks_value = IntValue int | NotInt string

record tmx_object =
  obj_name :: "string option"
  obj_x :: int
  obj_y :: int
  obj_enemy_type :: "string option"
  obj_enemy_movement :: "string option"
  obj_blocks :: "blocks_value option"
  obj_music :: "string option"

datatype tmx_layer =
    TileLayer string "(int \<times> int \<times> int) list"
  | ObjectGroup string "tmx_object list"

record tmx_map =
  width :: int
  height :: int
  tilewidth :: int
  tileheight :: int
  layers :: "tmx_layer list"
  tile_images :: "int \<rightharpoonup> nat"
  tile_frames :: "int \<rightharpoonup> (int \<times> int) list"

fun layer_name :: "tmx_layer \<Rightarrow> string" where
  "layer_name (TileLayer name cells) = name"
| "layer_name (ObjectGroup name objs) = name"

text \<open>The first layer called \<open>name\<close> that has tile data, as the search loops find it.\<close>

fun find_tile_layer :: "string \<Rightarrow> tmx_layer list \<Rightarrow> (int \<times> int \<times> int) list option" where
  "find_tile_layer name [] = None"
| "find_tile_layer name (TileLayer n cells # ls) =
     (if n = name then Some cells else find_tile_layer name ls)"
| "find_tile_layer name (ObjectGroup n objs # ls) = find_tile_layer name ls"

text \<open>The first layer called \<open>name\<close>, of either kind.\<close>

fun find_layer :: "string \<Rightarrow> tmx_layer list \<Rightarrow> tmx_layer option" where
  "find_layer name [] = None"
| "find_layer name (l # ls) = (if layer_name l = name then Some l else find_layer name ls)"

section \<open>AnimatedTile\<close>

record AnimatedTile =
  tile_px :: int
  tile_py :: int
  tile_gid :: int
  tile_current_frame :: nat
  tile_last_frame_time :: real
  tile_frame_images :: "nat list"
  frame_duration :: real

text \<open>
  \<^verbatim>\<open>_load_animation_data\<close>: every declared frame that has an image is appended and sets
  the duration; with no frame loaded the tile's own image, if any, is the single frame.
\<close>

fun load_frames :: "tmx_map \<Rightarrow> (int \<times> int) list \<Rightarrow> AnimatedTile \<Rightarrow> AnimatedTile" where
  "load_frames m [] t = t"
| "load_frames m ((gid, ms) # fs) t =
     (case tile_images m gid of
        Some img \<Rightarrow> load_frames m fs
          (t\<lparr> tile_frame_images := tile_frame_images t @ [img],
              frame_duration := real_of_int ms / 1000 \<rparr>)
      | None \<Rightarrow> load_frames m fs t)"

definition AnimatedTile_init :: "int \<Rightarrow> int \<Rightarrow> int \<Rightarrow> tmx_map \<Rightarrow> real \<Rightarrow> AnimatedTile" where
  "AnimatedTile_init x y gid m now =
     (let t0 = \<lparr> tile_px = x, tile_py = y, tile_gid = gid, tile_current_frame = 0,
                 tile_last_frame_time = now, tile_frame_images = [],
                 frame_duration = 5 / 10 \<rparr>;
          t1 = (case tile_frames m gid of None \<Rightarrow> t0 | Some fs \<Rightarrow> load_frames m fs t0)
      in if tile_frame_images t1 \<noteq> [] then t1
         else (case tile_images m gid of
                 Some img \<Rightarrow> t1\<lparr> tile_frame_images := [img] \<rparr>
               | None \<Rightarrow> t1))"


section \<open>LevelLoader\<close>

text \<open>
  The entity list holds players and enemies. \<^verbatim>\<open>self.player\<close> is a second reference to an
  object of the list, never a separate object: it is modelled as the index of that object
  in \<open>entities\<close>, so that an update through either reference is seen through the other.
  The background surface is its size and the list of tiles blitted onto it. The UI holds
  images only and is left out.
\<close>

datatype entity = PlayerEntity Player | EnemyEntity Enemy

record surface =
  surface_width :: int
  surface_height :: int
  blits :: "(nat \<times> int \<times> int) list"

record LevelLoader =
  level_sequence :: "string list"
  current_level_index :: int
  tmx_data :: "tmx_map option"
  bg_surface :: "surface option"
  camera_x :: int
  camera_y :: int
  entities :: "entity list"
  player :: "nat option"
  collision_grid :: grid
  animated_tiles :: "AnimatedTile list"

definition get_player :: "LevelLoader \<Rightarrow> Player option" where
  "get_player L =
     (case player L of
        None \<Rightarrow> None
      | Some i \<Rightarrow> if i < length (entities L)
                  then (case entities L ! i of PlayerEntity p \<Rightarrow> Some p | EnemyEntity e \<Rightarrow> None)
                  else None)"

definition set_player :: "LevelLoader \<Rightarrow> Player \<Rightarrow> LevelLoader" where
  "set_player L p =
     (case player L of
        None \<Rightarrow> L
      | Some i \<Rightarrow> L\<lparr> entities := (entities L)[i := PlayerEntity p] \<rparr>)"

subsection \<open>Collisions between the player and the enemies\<close>







subsection \<open>The frame update\<close>



subsection \<open>Moving the player\<close>

definition get_level_size :: "LevelLoader \<Rightarrow> int \<times> int" where
  "get_level_size L =
     (case tmx_data L of
        Some m \<Rightarrow> (width m * tilewidth m, height m * tileheight m)
      | None \<Rightarrow> (0, 0))"

text \<open>\<open>current_time\<close> is \<^verbatim>\<open>pygame.time.get_ticks() / 1000.0\<close>, read when the tile is free.\<close>

definition move_player :: "LevelLoader \<Rightarrow> int \<Rightarrow> int \<Rightarrow> real \<Rightarrow> error + bool \<times> LevelLoader" where
  "move_player L dx dy current_time =
     (case get_player L of
        None \<Rightarrow> Inr (False, L)
      | Some p \<Rightarrow>
          (let level_width = fst (get_level_size L);
               level_height = snd (get_level_size L);
               new_x = p_x p + dx * TILE_SIZE;
               new_y = p_y p + dy * TILE_SIZE
           in case is_position_blocked (collision_grid L) new_x new_y of
                Inl err \<Rightarrow> Inl err
              | Inr blocked \<Rightarrow>
                  if \<not> blocked then
                    (let r = move p dx dy level_width level_height current_time
                     in Inr (fst r, set_player L (snd r)))
                  else Inr (False, L)))"

text \<open>
  A loader state for a level of one row: the player on the free tile \<open>(0, 0)\<close>, a wall on
  tile \<open>(1, 0)\<close>.
\<close>

definition one_tile_corridor :: LevelLoader where
  "one_tile_corridor =
     \<lparr> level_sequence = [''level-1''], current_level_index = 0, tmx_data = None,
       bg_surface = None, camera_x = 0, camera_y = 0,
       entities = [PlayerEntity (Player_init 0 0 0)], player = Some 0,
       collision_grid = [[False, True]], animated_tiles = [] \<rparr>"


subsection \<open>Loading a level\<close>

text \<open>\<^verbatim>\<open>_create_collision_grid\<close>: a grid of \<open>False\<close>, then \<open>True\<close> at every cell of the first
  tile layer called \<^verbatim>\<open>colliders\<close> that holds a tile (gid not 0) inside the map.\<close>

fun mark_colliders :: "int \<Rightarrow> int \<Rightarrow> (int \<times> int \<times> int) list \<Rightarrow> grid \<Rightarrow> grid" where
  "mark_colliders gw gh [] g = g"
| "mark_colliders gw gh ((x, y, gid) # cells) g =
     mark_colliders gw gh cells
       (if gid \<noteq> 0 \<and> 0 \<le> y \<and> y < gh \<and> 0 \<le> x \<and> x < gw
        then g[nat y := (g ! nat y)[nat x := True]] else g)"

definition create_collision_grid :: "LevelLoader \<Rightarrow> LevelLoader" where
  "create_collision_grid L =
     (case tmx_data L of
        None \<Rightarrow> L
      | Some m \<Rightarrow>
          (let g0 = replicate (nat (height m)) (replicate (nat (width m)) False)
           in case find_tile_layer ''colliders'' (layers m) of
                None \<Rightarrow> L\<lparr> collision_grid := g0 \<rparr>
              | Some cells \<Rightarrow>
                  L\<lparr> collision_grid := mark_colliders (width m) (height m) cells g0 \<rparr>))"

text \<open>\<^verbatim>\<open>_render_background\<close>: the tiles of the layers \<^verbatim>\<open>background\<close> and \<^verbatim>\<open>colliders\<close>, in
  this order, blitted onto a new surface of the size of the level.\<close>

fun blit_layer :: "tmx_map \<Rightarrow> (int \<times> int \<times> int) list \<Rightarrow> surface \<Rightarrow> surface" where
  "blit_layer m [] s = s"
| "blit_layer m ((x, y, gid) # cells) s =
     blit_layer m cells
       (if gid \<noteq> 0 then
          (case tile_images m gid of
             Some tile \<Rightarrow> s\<lparr> blits := blits s @ [(tile, x * tilewidth m, y * tileheight m)] \<rparr>
           | None \<Rightarrow> s)
        else s)"

definition render_layer :: "tmx_map \<Rightarrow> string \<Rightarrow> surface \<Rightarrow> surface" where
  "render_layer m name s =
     (case find_tile_layer name (layers m) of None \<Rightarrow> s | Some cells \<Rightarrow> blit_layer m cells s)"

definition render_background :: "LevelLoader \<Rightarrow> LevelLoader" where
  "render_background L =
     (case tmx_data L of
        None \<Rightarrow> L
      | Some m \<Rightarrow>
          L\<lparr> bg_surface := Some
                (render_layer m ''colliders''
                  (render_layer m ''background''
                    \<lparr> surface_width = width m * tilewidth m,
                      surface_height = height m * tileheight m,
                      blits = [] \<rparr>)) \<rparr>)"

text \<open>
  \<^verbatim>\<open>_load_entities\<close>. The name of an object is compared in lower case (ASCII letters), a
  missing or empty name as the empty string. A player object is appended and becomes the
  tracked player; an enemy object is appended after \<^verbatim>\<open>int(blocks)\<close>, which raises
  ValueError on a value that is no number; the info object only starts the music (an
  external call, left out); any other name is reported and skipped. The result is the
  exception raised, if any, with the loader as the loop left it.
\<close>

definition lower_char :: "char \<Rightarrow> char" where
  "lower_char c =
     (case map_of (zip ''ABCDEFGHIJKLMNOPQRSTUVWXYZ'' ''abcdefghijklmnopqrstuvwxyz'') c of
        None \<Rightarrow> c
      | Some d \<Rightarrow> d)"

definition entity_name :: "tmx_object \<Rightarrow> string" where
  "entity_name obj = (case obj_name obj of None \<Rightarrow> [] | Some n \<Rightarrow> map lower_char n)"

definition int_of_blocks :: "blocks_value option \<Rightarrow> error + int" where
  "int_of_blocks b =
     (case b of
        None \<Rightarrow> Inr 2
      | Some (IntValue n) \<Rightarrow> Inr n
      | Some (NotInt s) \<Rightarrow> Inl ValueError)"

definition string_or :: "string option \<Rightarrow> string \<Rightarrow> string" where
  "string_or v d = (case v of None \<Rightarrow> d | Some s \<Rightarrow> s)"

fun load_objects :: "tmx_object list \<Rightarrow> LevelLoader \<Rightarrow> real \<Rightarrow> error option \<times> LevelLoader" where
  "load_objects [] L now = (None, L)"
| "load_objects (obj # objs) L now =
     (if entity_name obj = ''player'' then
        load_objects objs
          (L\<lparr> entities := entities L @ [PlayerEntity (Player_init (obj_x obj) (obj_y obj) now)],
              player := Some (length (entities L)) \<rparr>) now
      else if entity_name obj = ''enemy'' then
        (case int_of_blocks (obj_blocks obj) of
           Inl err \<Rightarrow> (Some err, L)
         | Inr n \<Rightarrow>
             load_objects objs
               (L\<lparr> entities := entities L @
                     [EnemyEntity (Enemy_init (obj_x obj) (obj_y obj)
                        (string_or (obj_enemy_type obj) ''rat'')
                        (string_or (obj_enemy_movement obj) ''horizontal'') n now)] \<rparr>) now)
      else load_objects objs L now)"

text \<open>
  The layer called \<^verbatim>\<open>entities\<close> is looked up by name only. Iterating a tile layer gives
  tuples, and \<^verbatim>\<open>obj.name\<close> on the first of them raises AttributeError.
\<close>

definition load_entities :: "LevelLoader \<Rightarrow> real \<Rightarrow> error option \<times> LevelLoader" where
  "load_entities L now =
     (let L1 = L\<lparr> entities := [], player := None \<rparr>
      in case tmx_data L1 of
           None \<Rightarrow> (None, L1)
         | Some m \<Rightarrow>
             (case find_layer ''entities'' (layers m) of
                None \<Rightarrow> (None, L1)
              | Some (ObjectGroup n objs) \<Rightarrow> load_objects objs L1 now
              | Some (TileLayer n cells) \<Rightarrow>
                  if cells = [] then (None, L1) else (Some AttributeError, L1)))"

fun animated_cells :: "tmx_map \<Rightarrow> (int \<times> int \<times> int) list \<Rightarrow> real \<Rightarrow> AnimatedTile list" where
  "animated_cells m [] now = []"
| "animated_cells m ((x, y, gid) # cells) now =
     (if gid \<noteq> 0
      then AnimatedTile_init (x * tilewidth m) (y * tileheight m) gid m now
             # animated_cells m cells now
      else animated_cells m cells now)"

definition load_animated_tiles :: "LevelLoader \<Rightarrow> real \<Rightarrow> LevelLoader" where
  "load_animated_tiles L now =
     (let L1 = L\<lparr> animated_tiles := [] \<rparr>
      in case tmx_data L1 of
           None \<Rightarrow> L1
         | Some m \<Rightarrow>
             (case find_tile_layer ''animated'' (layers m) of
                None \<Rightarrow> L1
              | Some cells \<Rightarrow> L1\<lparr> animated_tiles := animated_cells m cells now \<rparr>))"

text \<open>
  \<^verbatim>\<open>load_current_level\<close>. \<open>load_pygame\<close> is the file system seen through
  \<^verbatim>\<open>pytmx.load_pygame\<close>: the map at a path, or the exception raised for a missing or
  unreadable file. \<^verbatim>\<open>level_sequence[current_level_index]\<close>, evaluated before the \<^verbatim>\<open>try\<close>,
  counts a negative index from the end and raises IndexError below \<open>- len\<close>. Every
  exception raised inside the \<^verbatim>\<open>try\<close> is caught and turned into the result \<open>False\<close>, with
  the loader as the interrupted stage left it.
\<close>

definition tmx_path :: "string \<Rightarrow> string" where
  "tmx_path level_name =
     (if level_name \<noteq> [] \<and> hd level_name = CHR ''/'' then level_name @ ''.tmx''
      else ''data/tmx/'' @ level_name @ ''.tmx'')"

definition py_index :: "'a list \<Rightarrow> int \<Rightarrow> error + 'a" where
  "py_index xs i =
     (if 0 \<le> i \<and> i < int (length xs) then Inr (xs ! nat i)
      else if i < 0 \<and> - int (length xs) \<le> i then Inr (xs ! nat (int (length xs) + i))
      else Inl IndexError)"

definition load_current_level ::
  "LevelLoader \<Rightarrow> (string \<Rightarrow> error + tmx_map) \<Rightarrow> real \<Rightarrow> error + bool \<times> LevelLoader" where
  "load_current_level L load_pygame now =
     (if current_level_index L \<ge> int (length (level_sequence L)) then Inr (False, L)
      else
        (case py_index (level_sequence L) (current_level_index L) of
           Inl err \<Rightarrow> Inl err
         | Inr level_name \<Rightarrow>
             (case load_pygame (tmx_path level_name) of
                Inl err \<Rightarrow> Inr (False, L)
              | Inr m \<Rightarrow>
                  (let L1 = L\<lparr> tmx_data := Some m \<rparr>;
                       L2 = create_collision_grid L1;
                       L3 = render_background L2
                   in case load_entities L3 now of
                        (Some err, L4) \<Rightarrow> Inr (False, L4)
                      | (None, L4) \<Rightarrow> Inr (True, load_animated_tiles L4 now)))))"

definition next_level ::
  "LevelLoader \<Rightarrow> (string \<Rightarrow> error + tmx_map) \<Rightarrow> real \<Rightarrow> error + bool \<times> LevelLoader" where
  "next_level L load_pygame now =
     load_current_level (L\<lparr> current_level_index := current_level_index L + 1 \<rparr>) load_pygame now"

text \<open>
  A map file that loads and whose only object is an enemy with the property
  \<^verbatim>\<open>blocks = "two"\<close>, and a file system that holds it as \<^verbatim>\<open>data/tmx/level-1.tmx\<close> and
  nothing else.
\<close>

definition broken_map :: tmx_map where
  "broken_map =
     \<lparr> width = 2, height = 2, tilewidth = 16, tileheight = 16,
       layers = [ObjectGroup ''entities''
                  [\<lparr> obj_name = Some ''Enemy'', obj_x = 16, obj_y = 16,
                     obj_enemy_type = None, obj_enemy_movement = None,
                     obj_blocks = Some (NotInt ''two''), obj_music = None \<rparr>]],
       tile_images = Map.empty, tile_frames = Map.empty \<rparr>"




section \<open>Properties of the collision grid\<close>

lemma grid_width_nth0: "g \<noteq> [] \<Longrightarrow> int (length (g ! 0)) = grid_width g"
  by (cases g) (simp_all add: grid_width_def)

lemma is_tile_blocked_outside:
  assumes out: "tile_x < 0 \<or> tile_y < 0 \<or> grid_width g \<le> tile_x \<or> grid_height g \<le> tile_y"
  shows "is_tile_blocked g tile_x tile_y = Inr True"
proof (cases "tile_x < 0 \<or> tile_y < 0 \<or> grid_height g \<le> tile_y")
  case True
  then show ?thesis
    by (auto simp: is_tile_blocked_def grid_height_def)
next
  case False
  then have inside: "0 \<le> tile_y" "tile_y < int (length g)" and wide: "grid_width g \<le> tile_x"
    using out by (auto simp: grid_height_def)
  from inside have "g \<noteq> []" by auto
  then have "int (length (g ! 0)) \<le> tile_x"
    using wide by (simp add: grid_width_nth0)
  then show ?thesis
    by (simp add: is_tile_blocked_def)
qed

text \<open>The grid built from a map has the map's height and, in every row, the map's width.\<close>

lemma row_update_length:
  "i < length g \<Longrightarrow> length (g[j := (g ! j)[k := v]] ! i) = length (g ! i)"
  by (cases "i = j") simp_all

lemma mark_colliders_shape:
  "length (mark_colliders gw gh cells g) = length g
   \<and> (\<forall>i < length g. length (mark_colliders gw gh cells g ! i) = length (g ! i))"
proof (induction gw gh cells g rule: mark_colliders.induct)
  case (1 gw gh g)
  then show ?case by simp
next
  case (2 gw gh x y gid cells g)
  then show ?case
    by (auto simp: row_update_length)
qed

lemma create_collision_grid_shape:
  assumes "tmx_data L = Some m"
  shows "length (collision_grid (create_collision_grid L)) = nat (height m)"
    and "i < nat (height m) \<Longrightarrow> length (collision_grid (create_collision_grid L) ! i) = nat (width m)"
  using assms mark_colliders_shape
  by (auto simp: create_collision_grid_def Let_def split: option.splits)

lemma built_grid_outside:
  assumes "tmx_data L = Some m"
    and "tile_x < 0 \<or> tile_y < 0 \<or> width m \<le> tile_x \<or> height m \<le> tile_y"
  shows "is_tile_blocked (collision_grid (create_collision_grid L)) tile_x tile_y = Inr True"
proof -
  let ?g = "collision_grid (create_collision_grid L)"
  have h: "grid_height ?g = int (nat (height m))"
    using create_collision_grid_shape(1) [OF assms(1)] by (simp add: grid_height_def)
  show ?thesis
  proof (cases "tile_x < 0 \<or> tile_y < 0 \<or> height m \<le> tile_y")
    case True
    then have "tile_x < 0 \<or> tile_y < 0 \<or> grid_height ?g \<le> tile_y"
      using h by auto
    then show ?thesis
      by (auto intro: is_tile_blocked_outside)
  next
    case False
    then have "0 < nat (height m)" by auto
    then have "length (?g ! 0) = nat (width m)" and "?g \<noteq> []"
      using create_collision_grid_shape [OF assms(1)] by auto
    then have "grid_width ?g = int (nat (width m))"
      using grid_width_nth0 [of ?g] by simp
    then have "grid_width ?g \<le> tile_x"
      using False assms(2) by auto
    then show ?thesis
      by (auto intro: is_tile_blocked_outside)
  qed
qed

text \<open>
  Claim C1. A tile query outside \<open>[0, width) \<times> [0, height)\<close> of the collision grid
  answers blocked, whatever the grid holds: the level's border is solid. The width of a
  grid is the length of its first row (0 for a grid with no row), its height the number of
  rows; for the grid that \<^verbatim>\<open>_create_collision_grid\<close> builds they are the width and the
  height of the map. The query returns normally (no IndexError) on every such input.
\<close>

theorem is_tile_blocked_out_of_bounds:
  "(tile_x < 0 \<or> tile_y < 0 \<or> grid_width g \<le> tile_x \<or> grid_height g \<le> tile_y
      \<longrightarrow> is_tile_blocked g tile_x tile_y = Inr True)
   \<and> (tmx_data L = Some m
        \<and> (tile_x < 0 \<or> tile_y < 0 \<or> width m \<le> tile_x \<or> height m \<le> tile_y)
      \<longrightarrow> is_tile_blocked (collision_grid (create_collision_grid L)) tile_x tile_y = Inr True)"
  using is_tile_blocked_outside [of tile_x tile_y g] built_grid_outside [of L m tile_x tile_y]
  by blast

theorem is_tile_blocked_out_of_bounds_witness:
  "is_tile_blocked [[False, False], [False, False]] 2 1 = Inr True
   \<and> is_tile_blocked [[False, False], [False, False]] 0 (- 1) = Inr True
   \<and> is_tile_blocked [[False, False], [False, False]] 1 1 = Inr False
   \<and> is_tile_blocked
        (collision_grid (create_collision_grid (one_tile_corridor\<lparr> tmx_data := Some broken_map \<rparr>)))
        0 2 = Inr True"
proof -
  let ?g = "[[False, False], [False, False]]"
  let ?L = "one_tile_corridor\<lparr> tmx_data := Some broken_map \<rparr>"
  have 1: "is_tile_blocked ?g 2 1 = Inr True"
    using is_tile_blocked_out_of_bounds [of 2 1 ?g]
    by (simp add: grid_width_def grid_height_def)
  have 2: "is_tile_blocked ?g 0 (- 1) = Inr True"
    using is_tile_blocked_out_of_bounds [of 0 "- 1" ?g]
    by simp
  have 3: "is_tile_blocked ?g 1 1 = Inr False"
    by (simp add: is_tile_blocked_def)
  have m: "tmx_data ?L = Some broken_map" "height broken_map = 2"
    by (simp_all add: broken_map_def)
  have 4: "is_tile_blocked (collision_grid (create_collision_grid ?L)) 0 2 = Inr True"
    using is_tile_blocked_out_of_bounds [of 0 2 _ ?L broken_map] m
    by simp
  show ?thesis
    by (intro conjI 1 2 3 4)
qed

section \<open>Properties of AnimatedSprite\<close>


lemma AnimatedSprite_update_advance:
  assumes "current_animation s = Some name" "name \<noteq> []" "\<not> animation_finished s"
    and "animations s name = Some a" "t - last_frame_time s \<ge> duration a"
  shows "AnimatedSprite_update s t =
     Inr (if current_frame s + 1 \<ge> int (length (frames a))
          then (if loops a
                then s\<lparr> current_frame := 0, last_frame_time := t \<rparr>
                else s\<lparr> current_frame := int (length (frames a)) - 1, last_frame_time := t,
                        animation_finished := True \<rparr>)
          else s\<lparr> current_frame := current_frame s + 1, last_frame_time := t \<rparr>)"
  using assms by (simp add: AnimatedSprite_update_def Let_def)

lemma AnimatedSprite_update_finished:
  "animation_finished s \<Longrightarrow> AnimatedSprite_update s t = Inr s"
  by (simp add: AnimatedSprite_update_def split: option.splits)

lemma AnimatedSprite_updates_finished:
  "animation_finished s \<Longrightarrow> AnimatedSprite_updates s ts = Inr s"
  by (induction ts) (simp_all add: AnimatedSprite_update_finished)

lemma AnimatedSprite_trace_loop3:
  assumes a: "animations s name = Some a" "name \<noteq> []" "current_animation s = Some name"
    and c: "length (frames a) = 3" "duration a = 1 / 10" "loops a"
    and st: "current_frame s = 0" "\<not> animation_finished s"
    and sp: "spaced (1 / 10) (last_frame_time s) [t1, t2, t3, t4]"
  shows "AnimatedSprite_trace s [t1, t2, t3, t4] = Inr [1, 2, 0, 1]"
proof -
  define s1 where "s1 = s\<lparr> current_frame := 1, last_frame_time := t1 \<rparr>"
  define s2 where "s2 = s\<lparr> current_frame := 2, last_frame_time := t2 \<rparr>"
  define s3 where "s3 = s\<lparr> current_frame := 0, last_frame_time := t3 \<rparr>"
  define s4 where "s4 = s\<lparr> current_frame := 1, last_frame_time := t4 \<rparr>"
  have u1: "AnimatedSprite_update s t1 = Inr s1"
    using AnimatedSprite_update_advance [of s name a t1] a c st sp by (simp add: s1_def)
  have u2: "AnimatedSprite_update s1 t2 = Inr s2"
    using AnimatedSprite_update_advance [of s1 name a t2] a c st sp by (simp add: s1_def s2_def)
  have u3: "AnimatedSprite_update s2 t3 = Inr s3"
    using AnimatedSprite_update_advance [of s2 name a t3] a c st sp by (simp add: s2_def s3_def)
  have u4: "AnimatedSprite_update s3 t4 = Inr s4"
    using AnimatedSprite_update_advance [of s3 name a t4] a c st sp by (simp add: s3_def s4_def)
  show ?thesis
    by (simp add: u1 u2 u3 u4) (simp add: s1_def s2_def s3_def s4_def)
qed

lemma AnimatedSprite_updates_clamp:
  assumes "animations s name = Some a" "name \<noteq> []" "current_animation s = Some name"
    and "\<not> loops a" "\<not> animation_finished s"
    and "int (length (frames a)) \<le> current_frame s + int (length ts)"
    and "current_frame s < int (length (frames a))"
    and "spaced (duration a) (last_frame_time s) ts"
  shows "\<exists>s'. AnimatedSprite_updates s ts = Inr s' \<and> animation_finished s'
          \<and> current_frame s' = int (length (frames a)) - 1"
  using assms
proof (induction ts arbitrary: s)
  case Nil
  then show ?case by simp
next
  case (Cons t ts)
  have adv: "t - last_frame_time s \<ge> duration a" and rest: "spaced (duration a) t ts"
    using Cons.prems by simp_all
  note upd = AnimatedSprite_update_advance [OF Cons.prems(3) Cons.prems(2) Cons.prems(5) Cons.prems(1) adv]
  show ?case
  proof (cases "current_frame s + 1 \<ge> int (length (frames a))")
    case True
    then have "AnimatedSprite_update s t = Inr (s\<lparr> current_frame := int (length (frames a)) - 1,
        last_frame_time := t, animation_finished := True \<rparr>)"
      using upd Cons.prems(4) by simp
    then show ?thesis
      by (simp add: AnimatedSprite_updates_finished)
  next
    case False
    let ?s1 = "s\<lparr> current_frame := current_frame s + 1, last_frame_time := t \<rparr>"
    have u: "AnimatedSprite_update s t = Inr ?s1"
      using upd False by simp
    have "\<exists>s'. AnimatedSprite_updates ?s1 ts = Inr s' \<and> animation_finished s'
          \<and> current_frame s' = int (length (frames a)) - 1"
      using Cons.prems False rest by (intro Cons.IH) simp_all
    then show ?thesis by (simp add: u)
  qed
qed


lemma AnimatedSprite_update_wrap:
  assumes "animations s name = Some a" "name \<noteq> []" "current_animation s = Some name"
    and "loops a" "\<not> animation_finished s"
    and "0 \<le> current_frame s" "current_frame s < int (length (frames a))"
    and "t - last_frame_time s \<ge> duration a"
  shows "\<exists>s'. AnimatedSprite_update s t = Inr s'
           \<and> current_frame s' = (current_frame s + 1) mod int (length (frames a))"
proof (cases "current_frame s + 1 \<ge> int (length (frames a))")
  case True
  then have "current_frame s + 1 = int (length (frames a))"
    using assms(7) by simp
  then show ?thesis
    using AnimatedSprite_update_advance [OF assms(3) assms(2) assms(5) assms(1) assms(8)] assms(4)
    by simp
next
  case False
  then have "(current_frame s + 1) mod int (length (frames a)) = current_frame s + 1"
    using assms(6) by simp
  then show ?thesis
    using AnimatedSprite_update_advance [OF assms(3) assms(2) assms(5) assms(1) assms(8)] False
    by simp
qed

text \<open>
  Claim C8. (1) A sprite at frame 0 of a looping clip of three frames of 0.1 s each shows
  the frames 1, 2, 0, 1 after four \<^verbatim>\<open>update\<close> calls, each at least 0.1 s after the
  previous frame advance. (2) In general a due \<^verbatim>\<open>update\<close> of a looping clip moves the
  index to the next one modulo the number of frames. (3) A clip that does not loop, updated
  when due often enough to run past its last frame, ends with the index on the last frame
  and \<^verbatim>\<open>animation_finished\<close> set, and every later \<^verbatim>\<open>update\<close> leaves the sprite as it is.
  No call raises.
\<close>

theorem animated_sprite_wraps_and_clamps:
  "(animations s name = Some a \<and> name \<noteq> [] \<and> current_animation s = Some name
      \<and> length (frames a) = 3 \<and> duration a = 1 / 10 \<and> loops a
      \<and> current_frame s = 0 \<and> \<not> animation_finished s
      \<and> spaced (1 / 10) (last_frame_time s) [t1, t2, t3, t4]
    \<longrightarrow> AnimatedSprite_trace s [t1, t2, t3, t4] = Inr [1, 2, 0, 1])
   \<and> (animations s name = Some a \<and> name \<noteq> [] \<and> current_animation s = Some name
      \<and> loops a \<and> \<not> animation_finished s
      \<and> 0 \<le> current_frame s \<and> current_frame s < int (length (frames a))
      \<and> t - last_frame_time s \<ge> duration a
    \<longrightarrow> (\<exists>s'. AnimatedSprite_update s t = Inr s'
           \<and> current_frame s' = (current_frame s + 1) mod int (length (frames a))))
   \<and> (animations s name = Some a \<and> name \<noteq> [] \<and> current_animation s = Some name
      \<and> \<not> loops a \<and> \<not> animation_finished s
      \<and> current_frame s < int (length (frames a))
      \<and> int (length (frames a)) \<le> current_frame s + int (length ts)
      \<and> spaced (duration a) (last_frame_time s) ts
    \<longrightarrow> (\<exists>s'. AnimatedSprite_updates s ts = Inr s' \<and> animation_finished s'
           \<and> current_frame s' = int (length (frames a)) - 1
           \<and> (\<forall>us. AnimatedSprite_updates s' us = Inr s')))"
proof (intro conjI impI)
  assume "animations s name = Some a \<and> name \<noteq> [] \<and> current_animation s = Some name
      \<and> length (frames a) = 3 \<and> duration a = 1 / 10 \<and> loops a
      \<and> current_frame s = 0 \<and> \<not> animation_finished s
      \<and> spaced (1 / 10) (last_frame_time s) [t1, t2, t3, t4]"
  then show "AnimatedSprite_trace s [t1, t2, t3, t4] = Inr [1, 2, 0, 1]"
    using AnimatedSprite_trace_loop3 [of s name a t1 t2 t3 t4] by blast
next
  assume "animations s name = Some a \<and> name \<noteq> [] \<and> current_animation s = Some name
      \<and> loops a \<and> \<not> animation_finished s
      \<and> 0 \<le> current_frame s \<and> current_frame s < int (length (frames a))
      \<and> t - last_frame_time s \<ge> duration a"
  then show "\<exists>s'. AnimatedSprite_update s t = Inr s'
           \<and> current_frame s' = (current_frame s + 1) mod int (length (frames a))"
    using AnimatedSprite_update_wrap [of s name a t] by blast
next
  assume h: "animations s name = Some a \<and> name \<noteq> [] \<and> current_animation s = Some name
      \<and> \<not> loops a \<and> \<not> animation_finished s
      \<and> current_frame s < int (length (frames a))
      \<and> int (length (frames a)) \<le> current_frame s + int (length ts)
      \<and> spaced (duration a) (last_frame_time s) ts"
  then obtain s' where "AnimatedSprite_updates s ts = Inr s'" "animation_finished s'"
      "current_frame s' = int (length (frames a)) - 1"
    using AnimatedSprite_updates_clamp [of s name a ts] by blast
  then show "\<exists>s'. AnimatedSprite_updates s ts = Inr s' \<and> animation_finished s'
           \<and> current_frame s' = int (length (frames a)) - 1
           \<and> (\<forall>us. AnimatedSprite_updates s' us = Inr s')"
    using AnimatedSprite_updates_finished by blast
qed

lemma three_frame_clip_spin:
  "three_frame_clip ''spin''
     = Some \<lparr> frames = [(0, 0), (0, 1), (0, 2)], duration = 1 / 10, loop = Some True \<rparr>"
  by (simp add: three_frame_clip_def)

lemma sword_animations_attack_right:
  "sword_animations ''attack_right''
     = Some \<lparr> frames = [(2, 0), (2, 1), (2, 2), (2, 3), (2, 4)], duration = 1 / 10,
              loop = Some False \<rparr>"
  by (simp add: sword_animations_def)

theorem animated_sprite_wraps_and_clamps_witness:
  "AnimatedSprite_trace (play_animation (AnimatedSprite_init three_frame_clip) ''spin'' True 0)
      [1 / 10, 2 / 10, 3 / 10, 4 / 10] = Inr [1, 2, 0, 1]
   \<and> (\<exists>s'. AnimatedSprite_update
            (play_animation (AnimatedSprite_init three_frame_clip) ''spin'' True 0) (1 / 10)
            = Inr s' \<and> current_frame s' = 1)
   \<and> (\<exists>s'. AnimatedSprite_updates
            (play_animation (AnimatedSprite_init sword_animations) ''attack_right'' True 0)
            [1 / 10, 2 / 10, 3 / 10, 4 / 10, 5 / 10, 6 / 10] = Inr s'
          \<and> animation_finished s' \<and> current_frame s' = 4
          \<and> (\<forall>us. AnimatedSprite_updates s' us = Inr s'))"
proof -
  let ?s = "play_animation (AnimatedSprite_init three_frame_clip) ''spin'' True 0"
  let ?a = "\<lparr> frames = [(0, 0), (0, 1), (0, 2)], duration = 1 / 10, loop = Some True \<rparr>"
  let ?r = "play_animation (AnimatedSprite_init sword_animations) ''attack_right'' True 0"
  let ?b = "\<lparr> frames = [(2, 0), (2, 1), (2, 2), (2, 3), (2, 4)], duration = 1 / 10,
              loop = Some False \<rparr>"
  have s: "animations ?s ''spin'' = Some ?a" "current_animation ?s = Some ''spin''"
    "current_frame ?s = 0" "\<not> animation_finished ?s" "last_frame_time ?s = 0"
    by (simp_all add: play_animation_def AnimatedSprite_init_def three_frame_clip_spin)
  have r: "animations ?r ''attack_right'' = Some ?b" "current_animation ?r = Some ''attack_right''"
    "current_frame ?r = 0" "\<not> animation_finished ?r" "last_frame_time ?r = 0"
    by (simp_all add: play_animation_def AnimatedSprite_init_def sword_animations_attack_right)
  have 1: "AnimatedSprite_trace ?s [1 / 10, 2 / 10, 3 / 10, 4 / 10] = Inr [1, 2, 0, 1]"
    using animated_sprite_wraps_and_clamps [of ?s "''spin''" ?a "1 / 10" "2 / 10" "3 / 10" "4 / 10"] s
    by (simp add: loops_def)
  have 2: "\<exists>s'. AnimatedSprite_update ?s (1 / 10) = Inr s' \<and> current_frame s' = 1"
    using animated_sprite_wraps_and_clamps [of ?s "''spin''" ?a _ _ _ _ "1 / 10"] s
    by (simp add: loops_def)
  have 3: "\<exists>s'. AnimatedSprite_updates ?r [1 / 10, 2 / 10, 3 / 10, 4 / 10, 5 / 10, 6 / 10] = Inr s'
          \<and> animation_finished s' \<and> current_frame s' = 4
          \<and> (\<forall>us. AnimatedSprite_updates s' us = Inr s')"
    using animated_sprite_wraps_and_clamps [of ?r "''attack_right''" ?b _ _ _ _ _
        "[1 / 10, 2 / 10, 3 / 10, 4 / 10, 5 / 10, 6 / 10]"] r
    by (simp add: loops_def)
  show ?thesis using 1 2 3 by blast
qed

section \<open>Properties of Player.move\<close>

lemma move_cooldown_rejects:
  "current_time - last_move_time p < MOVEMENT_COOLDOWN
   \<Longrightarrow> move p dx dy level_width level_height current_time = (False, p)"
  by (simp add: move_def can_move_def)

lemma move_success_last_move_time:
  "fst (move p dx dy level_width level_height current_time)
   \<Longrightarrow> last_move_time (snd (move p dx dy level_width level_height current_time)) = current_time"
  by (simp add: move_def Let_def split: if_splits)

lemma move_rejected_frame:
  assumes "\<not> fst (move p dx dy level_width level_height current_time)"
  shows "snd (move p dx dy level_width level_height current_time) =
     (if can_move p current_time \<and> \<not> (dx \<noteq> 0 \<and> dy \<noteq> 0)
      then p\<lparr> facing_direction :=
                (if dx > 0 then ''right'' else if dx < 0 then ''left'' else facing_direction p) \<rparr>
      else p)"
  using assms by (auto simp: move_def Let_def split: if_splits)

text \<open>
  Claim C2, as amended. A rejected \<^verbatim>\<open>move\<close> (one that returns \<open>False\<close>) leaves the position,
  \<^verbatim>\<open>last_move_time\<close> and the moving flag as they were. When the call is rejected because the
  player is attacking or hurt, the cooldown has not elapsed or both \<open>dx\<close> and \<open>dy\<close> are
  nonzero, the whole player is unchanged. When it passes these tests and is rejected later
  (by the bounds test, or because \<open>dx = dy = 0\<close>), the facing direction has already been
  set from the sign of \<open>dx\<close> and nothing else has changed.
\<close>

theorem move_rejected_state:
  assumes "\<not> fst (move p dx dy level_width level_height current_time)"
  shows "p_x (snd (move p dx dy level_width level_height current_time)) = p_x p
       \<and> p_y (snd (move p dx dy level_width level_height current_time)) = p_y p
       \<and> last_move_time (snd (move p dx dy level_width level_height current_time))
           = last_move_time p
       \<and> is_moving (snd (move p dx dy level_width level_height current_time)) = is_moving p
       \<and> snd (move p dx dy level_width level_height current_time) =
           (if can_move p current_time \<and> \<not> (dx \<noteq> 0 \<and> dy \<noteq> 0)
            then p\<lparr> facing_direction :=
                      (if dx > 0 then ''right'' else if dx < 0 then ''left''
                       else facing_direction p) \<rparr>
            else p)"
  using move_rejected_frame [OF assms] by simp

text \<open>
  The claim as stated (a rejected call leaves the facing direction unchanged) fails: a
  player at \<open>x = 0\<close> facing right who is asked to step left is refused by the bounds test
  and faces left afterwards.
\<close>

theorem move_rejected_facing_counterexample:
  "\<not> fst (move (Player_init 0 0 0) (- 1) 0 320 240 1)
   \<and> facing_direction (Player_init 0 0 0) = ''right''
   \<and> facing_direction (snd (move (Player_init 0 0 0) (- 1) 0 320 240 1)) = ''left''"
  by (simp add: move_def can_move_def Player_init_def MOVEMENT_COOLDOWN_def TILE_SIZE_def Let_def)

theorem move_rejected_state_witness:
  "\<not> fst (move (Player_init 32 16 0) 0 (- 1) 320 240 (1 / 10))
   \<and> snd (move (Player_init 32 16 0) 0 (- 1) 320 240 (1 / 10)) = Player_init 32 16 0
   \<and> \<not> fst (move (Player_init 0 0 0) (- 1) 0 320 240 1)
   \<and> p_x (snd (move (Player_init 0 0 0) (- 1) 0 320 240 1)) = 0
   \<and> last_move_time (snd (move (Player_init 0 0 0) (- 1) 0 320 240 1)) = 0"
proof -
  have a: "\<not> fst (move (Player_init 32 16 0) 0 (- 1) 320 240 (1 / 10))"
    by (simp add: move_def can_move_def Player_init_def MOVEMENT_COOLDOWN_def)
  have b: "\<not> fst (move (Player_init 0 0 0) (- 1) 0 320 240 1)"
    by (simp add: move_def can_move_def Player_init_def MOVEMENT_COOLDOWN_def TILE_SIZE_def
        Let_def)
  have c: "\<not> can_move (Player_init 32 16 0) (1 / 10)"
    by (simp add: can_move_def Player_init_def MOVEMENT_COOLDOWN_def)
  have "snd (move (Player_init 32 16 0) 0 (- 1) 320 240 (1 / 10)) = Player_init 32 16 0"
    using move_rejected_state [OF a] c by simp
  moreover have "p_x (snd (move (Player_init 0 0 0) (- 1) 0 320 240 1)) = 0
     \<and> last_move_time (snd (move (Player_init 0 0 0) (- 1) 0 320 240 1)) = 0"
    using move_rejected_state [OF b] by (simp add: Player_init_def TILE_SIZE_def)
  ultimately show ?thesis using a b by simp
qed

section \<open>The movement cooldown\<close>

lemma successes_simps [simp]:
  "successes [] = 0"
  "successes (r # rs) = (if r then Suc (successes rs) else successes rs)"
  by (simp_all add: successes_def)

lemma moves_Cons:
  "moves p ((a, t) # calls) =
     (fst (move p (fst a) (fst (snd a)) (fst (snd (snd a))) (snd (snd (snd a))) t)
        # fst (moves (snd (move p (fst a) (fst (snd a)) (fst (snd (snd a))) (snd (snd (snd a))) t)) calls),
      snd (moves (snd (move p (fst a) (fst (snd a)) (fst (snd (snd a))) (snd (snd (snd a))) t)) calls))"
  by (cases a) (simp add: Let_def)

lemma move_too_early:
  "last_move_time p = t0 \<Longrightarrow> t - t0 < MOVEMENT_COOLDOWN
   \<Longrightarrow> move p dx dy w h t = (False, p)"
  by (simp add: move_cooldown_rejects)

lemma successes_ticks_bound:
  "successes (fst (moves p (ticks t0 (5 / 100) reqs))) \<le> (length reqs + 2) div 3"
proof (induction reqs arbitrary: p t0 rule: length_induct)
  case (1 reqs)
  note IH = "1.IH" [rule_format]
  show ?case
  proof (cases reqs)
    case Nil
    then show ?thesis by simp
  next
    case (Cons a rest)
    let ?r = "move p (fst a) (fst (snd a)) (fst (snd (snd a))) (snd (snd (snd a))) t0"
    show ?thesis
    proof (cases "fst ?r")
      case False
      have "successes (fst (moves (snd ?r) (ticks (t0 + 5 / 100) (5 / 100) rest)))
              \<le> (length rest + 2) div 3"
        using IH [of rest "snd ?r" "t0 + 5 / 100"] Cons by simp
      then show ?thesis
        using False Cons by (simp add: moves_Cons)
    next
      case True
      then have last: "last_move_time (snd ?r) = t0"
        by (rule move_success_last_move_time)
      show ?thesis
      proof (cases rest)
        case Nil
        then show ?thesis using Cons True by (simp add: moves_Cons)
      next
        case (Cons b rest2)
        note rest = this
        have m: "move (snd ?r) dx dy w h t = (False, snd ?r)" if "t - t0 < 15 / 100" for dx dy w h t
          using last that by (intro move_too_early [of _ t0]) (simp_all add: MOVEMENT_COOLDOWN_def)
        show ?thesis
        proof (cases rest2)
          case Nil
          then show ?thesis using \<open>reqs = a # rest\<close> rest True
            by (simp add: moves_Cons m)
        next
          case (Cons c rest3)
          have "successes (fst (moves (snd ?r) (ticks (t0 + 5 / 100 + 5 / 100 + 5 / 100) (5 / 100) rest3)))
              \<le> (length rest3 + 2) div 3"
            using IH [of rest3 "snd ?r"] \<open>reqs = a # rest\<close> rest Cons by simp
          then show ?thesis using \<open>reqs = a # rest\<close> rest Cons True
            by (simp add: moves_Cons m)
        qed
      qed
    qed
  qed
qed

text \<open>
  Claim C5. A \<^verbatim>\<open>move\<close> call made less than \<^verbatim>\<open>MOVEMENT_COOLDOWN\<close> (0.15 s) after
  \<^verbatim>\<open>last_move_time\<close> returns \<open>False\<close> and leaves the player (so also the position)
  unchanged. Hence, from any player state, \<open>n\<close> calls at ticks of 0.05 s, with any
  arguments, succeed at most \<open>(n + 2) div 3\<close> times: at most twice for up to five
  consecutive calls, which cover every window of 0.15 s.
\<close>

theorem move_within_cooldown_rejected:
  "(current_time - last_move_time p < MOVEMENT_COOLDOWN
      \<longrightarrow> move p dx dy level_width level_height current_time = (False, p))
   \<and> successes (fst (moves q (ticks t0 (5 / 100) reqs))) \<le> (length reqs + 2) div 3
   \<and> (length reqs \<le> 5 \<longrightarrow> successes (fst (moves q (ticks t0 (5 / 100) reqs))) \<le> 2)"
proof (intro conjI impI)
  assume "current_time - last_move_time p < MOVEMENT_COOLDOWN"
  then show "move p dx dy level_width level_height current_time = (False, p)"
    by (rule move_cooldown_rejects)
next
  show "successes (fst (moves q (ticks t0 (5 / 100) reqs))) \<le> (length reqs + 2) div 3"
    by (rule successes_ticks_bound)
next
  assume "length reqs \<le> 5"
  then have "(length reqs + 2) div 3 \<le> 2"
    by simp
  then show "successes (fst (moves q (ticks t0 (5 / 100) reqs))) \<le> 2"
    using successes_ticks_bound [of q t0 reqs] by (rule order_trans [rotated])
qed

theorem move_within_cooldown_rejected_witness:
  "move (snd (move (Player_init 0 0 0) 1 0 320 240 1)) 1 0 320 240 (11 / 10)
     = (False, snd (move (Player_init 0 0 0) 1 0 320 240 1))
   \<and> fst (moves (Player_init 0 0 0)
        (ticks 1 (5 / 100) [(1, 0, 320, 240), (1, 0, 320, 240), (1, 0, 320, 240),
                            (1, 0, 320, 240), (1, 0, 320, 240)]))
      = [True, False, False, True, False]
   \<and> successes (fst (moves (Player_init 0 0 0)
        (ticks 1 (5 / 100) [(1, 0, 320, 240), (1, 0, 320, 240), (1, 0, 320, 240),
                            (1, 0, 320, 240), (1, 0, 320, 240)]))) \<le> 2"
proof -
  define P1 where "P1 = (Player_init 0 0 0)\<lparr> p_x := 16, last_move_time := 1, is_moving := True \<rparr>"
  define P2 where "P2 = P1\<lparr> p_x := 32, last_move_time := 23 / 20 \<rparr>"
  let ?reqs = "[(1, 0, 320, 240), (1, 0, 320, 240), (1, 0, 320, 240),
                (1, 0, 320, 240), (1::int, 0::int, 320::int, 240::int)]"
  have s1: "move (Player_init 0 0 0) 1 0 320 240 1 = (True, P1)"
    by (simp add: move_def can_move_def Player_init_def MOVEMENT_COOLDOWN_def TILE_SIZE_def
        Let_def P1_def)
  have s2: "move P1 1 0 320 240 (21 / 20) = (False, P1)"
    by (rule move_cooldown_rejects) (simp add: P1_def MOVEMENT_COOLDOWN_def)
  have s3: "move P1 1 0 320 240 (11 / 10) = (False, P1)"
    using move_within_cooldown_rejected [of "11 / 10" P1 1 0 320 240]
    by (simp add: P1_def MOVEMENT_COOLDOWN_def)
  have s4: "move P1 1 0 320 240 (23 / 20) = (True, P2)"
    by (simp add: move_def can_move_def Player_init_def MOVEMENT_COOLDOWN_def TILE_SIZE_def
        Let_def P1_def P2_def)
  have s5: "move P2 1 0 320 240 (6 / 5) = (False, P2)"
    by (rule move_cooldown_rejects) (simp add: P2_def MOVEMENT_COOLDOWN_def)
  have c: "fst (moves (Player_init 0 0 0) (ticks 1 (5 / 100) ?reqs))
      = [True, False, False, True, False]"
    by (simp add: s1 s2 s3 s4 s5)
  have len: "length ?reqs \<le> 5"
    by simp
  have b: "successes (fst (moves (Player_init 0 0 0) (ticks 1 (5 / 100) ?reqs))) \<le> 2"
    using move_within_cooldown_rejected [of _ _ _ _ _ _ "Player_init 0 0 0" 1 ?reqs] len by blast
  have a: "move (snd (move (Player_init 0 0 0) 1 0 320 240 1)) 1 0 320 240 (11 / 10)
     = (False, snd (move (Player_init 0 0 0) 1 0 320 240 1))"
    by (simp add: s1 s3)
  show ?thesis
    by (intro conjI a b c)
qed

section \<open>Properties of Player.update and take_damage\<close>

subsection \<open>What a frame update leaves alone\<close>

lemma update_attack_state_fields:
  assumes "update_attack_state p now = Inr p'"
  shows "current_health p' = current_health p" "is_invincible p' = is_invincible p"
    "invincibility_start_time p' = invincibility_start_time p"
    "invincibility_duration p' = invincibility_duration p"
    "is_hurt p' = is_hurt p"
  using assms by (auto simp: update_attack_state_def split: if_splits sum.splits)

lemma update_animation_state_fields:
  "current_health (update_animation_state p now) = current_health p"
  "is_invincible (update_animation_state p now) = is_invincible p"
  "invincibility_start_time (update_animation_state p now) = invincibility_start_time p"
  "invincibility_duration (update_animation_state p now) = invincibility_duration p"
  "is_hurt (update_animation_state p now) = is_hurt p"
  by (simp_all add: update_animation_state_def Let_def)

lemma update_movement_timer_fields:
  "current_health (update_movement_timer p now) = current_health p"
  "is_invincible (update_movement_timer p now) = is_invincible p"
  "invincibility_start_time (update_movement_timer p now) = invincibility_start_time p"
  "invincibility_duration (update_movement_timer p now) = invincibility_duration p"
  "is_hurt (update_movement_timer p now) = is_hurt p"
  by (simp_all add: update_movement_timer_def)

lemma update_invincibility_state_fields:
  "current_health (update_invincibility_state p now) = current_health p"
  "invincibility_start_time (update_invincibility_state p now) = invincibility_start_time p"
  "invincibility_duration (update_invincibility_state p now) = invincibility_duration p"
  "is_hurt (update_invincibility_state p now) = is_hurt p"
  "is_invincible (update_invincibility_state p now) =
     (is_invincible p \<and> now - invincibility_start_time p < invincibility_duration p)"
  by (auto simp: update_invincibility_state_def)

lemmas update_stage_fields =
  update_animation_state_fields update_movement_timer_fields update_invincibility_state_fields

lemma Player_update_fields:
  assumes "Player_update p now = Inr p'"
  shows "current_health p' = current_health p"
    and "invincibility_start_time p' = invincibility_start_time p"
    and "invincibility_duration p' = invincibility_duration p"
    and "is_invincible p' =
      (is_invincible p \<and> (is_hurt p \<and> now - hurt_start_time p < hurt_duration p
         \<or> now - invincibility_start_time p < invincibility_duration p))"
    and "is_hurt p' = (is_hurt p \<and> now - hurt_start_time p < hurt_duration p)"
proof -
  show "current_health p' = current_health p"
    using assms
    by (auto simp: Player_update_def Let_def update_stage_fields
        split: if_splits sum.splits dest!: update_attack_state_fields(1))
  show "invincibility_start_time p' = invincibility_start_time p"
    using assms
    by (auto simp: Player_update_def Let_def update_stage_fields
        split: if_splits sum.splits dest!: update_attack_state_fields(3))
  show "invincibility_duration p' = invincibility_duration p"
    using assms
    by (auto simp: Player_update_def Let_def update_stage_fields
        split: if_splits sum.splits dest!: update_attack_state_fields(4))
  show "is_invincible p' =
      (is_invincible p \<and> (is_hurt p \<and> now - hurt_start_time p < hurt_duration p
         \<or> now - invincibility_start_time p < invincibility_duration p))"
    using assms
    by (auto simp: Player_update_def Let_def update_stage_fields
        split: if_splits sum.splits dest!: update_attack_state_fields(2))
  show "is_hurt p' = (is_hurt p \<and> now - hurt_start_time p < hurt_duration p)"
    using assms
    by (auto simp: Player_update_def Let_def update_stage_fields
        split: if_splits sum.splits dest!: update_attack_state_fields(5))
qed


subsection \<open>No exception on well-formed sprites\<close>

lemma sprite_ok_play_animation: "sprite_ok s \<Longrightarrow> sprite_ok (play_animation s name reset now)"
  by (auto simp: sprite_ok_def play_animation_def split: option.splits)

lemma sprite_ok_update:
  "sprite_ok s \<Longrightarrow> \<exists>s'. AnimatedSprite_update s now = Inr s' \<and> sprite_ok s'"
  by (auto simp: sprite_ok_def AnimatedSprite_update_def Let_def split: option.splits)

lemma sprite_ok_init: "sprite_ok (AnimatedSprite_init anims)"
  by (simp add: sprite_ok_def AnimatedSprite_init_def)

lemma player_ok_init: "player_ok (Player_init x y now)"
  by (simp add: player_ok_def Player_init_def sprite_ok_play_animation sprite_ok_init)

lemma player_ok_take_damage: "player_ok p \<Longrightarrow> player_ok (snd (take_damage p damage now))"
  by (simp add: player_ok_def take_damage_def sprite_ok_play_animation)

lemma player_ok_start_attack: "player_ok p \<Longrightarrow> player_ok (snd (start_attack p now))"
  by (simp add: player_ok_def start_attack_def sprite_ok_play_animation)

lemma player_ok_move: "player_ok p \<Longrightarrow> player_ok (snd (move p dx dy w h now))"
  by (simp add: player_ok_def move_def Let_def)

lemma player_ok_update_attack_state:
  "player_ok p \<Longrightarrow> \<exists>p'. update_attack_state p now = Inr p' \<and> player_ok p'"
proof -
  assume ok: "player_ok p"
  then obtain s' where "AnimatedSprite_update (sword_sprite p) now = Inr s'" "sprite_ok s'"
    using sprite_ok_update [of "sword_sprite p" now] by (auto simp: player_ok_def)
  then show ?thesis
    using ok by (simp add: update_attack_state_def player_ok_def)
qed

lemma player_ok_update_animation_state:
  "player_ok p \<Longrightarrow> player_ok (update_animation_state p now)"
  by (simp add: player_ok_def update_animation_state_def Let_def sprite_ok_play_animation)

lemma player_ok_stage:
  "player_ok p \<Longrightarrow> player_ok (update_movement_timer p now)"
  "player_ok p \<Longrightarrow> player_ok (update_invincibility_state p now)"
  "player_ok p \<Longrightarrow> player_ok (p\<lparr> is_hurt := False \<rparr>)"
  by (simp_all add: player_ok_def update_movement_timer_def update_invincibility_state_def)

lemma player_ok_sprite_step:
  "player_ok p \<Longrightarrow> \<exists>s. AnimatedSprite_update (sprite p) now = Inr s
     \<and> player_ok (p\<lparr> sprite := s \<rparr>) \<and> player_ok (p\<lparr> sprite := s, is_moving := False \<rparr>)"
  using sprite_ok_update [of "sprite p" now] by (auto simp: player_ok_def)

lemma player_ok_update:
  assumes ok: "player_ok p"
  shows "\<exists>p'. Player_update p now = Inr p' \<and> player_ok p'"
proof (cases "is_hurt p \<and> \<not> (now - hurt_start_time p \<ge> hurt_duration p)")
  case True
  then show ?thesis
    using player_ok_sprite_step [OF ok, of now] by (auto simp: Player_update_def)
next
  case False
  let ?p2 = "update_invincibility_state (if is_hurt p then p\<lparr> is_hurt := False \<rparr> else p) now"
  have "player_ok ?p2"
    using ok by (simp add: player_ok_stage)
  then obtain p3 where p3: "update_attack_state ?p2 now = Inr p3" "player_ok p3"
    using player_ok_update_attack_state by blast
  let ?p5 = "update_animation_state (update_movement_timer p3 now) now"
  have "player_ok ?p5"
    using p3 by (simp add: player_ok_stage player_ok_update_animation_state)
  then obtain s where "AnimatedSprite_update (sprite ?p5) now = Inr s"
      "player_ok (?p5\<lparr> sprite := s, is_moving := False \<rparr>)"
    using player_ok_sprite_step by blast
  then show ?thesis
    using False p3 by (auto simp: Player_update_def Let_def)
qed

lemma player_ok_step:
  "player_ok p \<Longrightarrow> \<exists>p'. player_step p ev = Inr p' \<and> player_ok p'"
  by (cases ev)
    (simp_all add: player_ok_update player_ok_move player_ok_start_attack player_ok_take_damage)

lemma player_ok_run:
  "player_ok p \<Longrightarrow> \<exists>p'. player_run p evs = Inr p' \<and> player_ok p'"
proof (induction evs arbitrary: p)
  case Nil
  then show ?case by simp
next
  case (Cons ev evs)
  then obtain p1 where "player_step p ev = Inr p1" "player_ok p1"
    using player_ok_step by blast
  then show ?case
    using Cons.IH [of p1] by simp
qed


subsection \<open>Health and the invincibility window\<close>

lemma take_damage_rejected:
  "is_invincible p \<or> is_hurt p \<Longrightarrow> take_damage p damage now = (False, p)"
  by (simp add: take_damage_def)

lemma take_damage_accepted:
  assumes "fst (take_damage p damage now)"
  shows "\<not> is_invincible p" "\<not> is_hurt p"
    and "current_health (snd (take_damage p damage now)) = max 0 (current_health p - damage)"
    and "is_invincible (snd (take_damage p damage now))"
    and "invincibility_start_time (snd (take_damage p damage now)) = now"
    and "invincibility_duration (snd (take_damage p damage now)) = invincibility_duration p"
    and "is_hurt (snd (take_damage p damage now))"
    and "hurt_start_time (snd (take_damage p damage now)) = now"
    and "hurt_duration (snd (take_damage p damage now)) = hurt_duration p"
  using assms by (auto simp: take_damage_def split: if_splits)

lemma take_damage_accepts: "\<not> is_invincible p \<Longrightarrow> \<not> is_hurt p \<Longrightarrow> fst (take_damage p damage now)"
  by (simp add: take_damage_def)

lemma take_damage_health_nonneg:
  "0 \<le> current_health p \<Longrightarrow> 0 \<le> current_health (snd (take_damage p damage now))"
  by (simp add: take_damage_def)

lemma move_fields:
  "current_health (snd (move p dx dy w h now)) = current_health p"
  "is_invincible (snd (move p dx dy w h now)) = is_invincible p"
  "invincibility_start_time (snd (move p dx dy w h now)) = invincibility_start_time p"
  "invincibility_duration (snd (move p dx dy w h now)) = invincibility_duration p"
  by (simp_all add: move_def Let_def)

lemma start_attack_fields:
  "current_health (snd (start_attack p now)) = current_health p"
  "is_invincible (snd (start_attack p now)) = is_invincible p"
  "invincibility_start_time (snd (start_attack p now)) = invincibility_start_time p"
  "invincibility_duration (snd (start_attack p now)) = invincibility_duration p"
  by (simp_all add: start_attack_def)

lemma player_step_health:
  "player_step p ev = Inr p' \<Longrightarrow> \<not> is_damage ev \<Longrightarrow> current_health p' = current_health p"
  by (cases ev) (auto simp: move_fields start_attack_fields Player_update_fields)

lemma player_run_health:
  "player_run p evs = Inr p' \<Longrightarrow> list_all (\<lambda>ev. \<not> is_damage ev) evs
   \<Longrightarrow> current_health p' = current_health p"
proof (induction evs arbitrary: p)
  case Nil
  then show ?case by simp
next
  case (Cons ev evs)
  then obtain p1 where s: "player_step p ev = Inr p1" and r: "player_run p1 evs = Inr p'"
    by (auto split: sum.splits)
  have "current_health p1 = current_health p"
    using s Cons.prems(2) by (simp add: player_step_health)
  then show ?case
    using Cons.IH [OF r] Cons.prems(2) by simp
qed

lemma player_step_health_nonneg:
  "player_step p ev = Inr p' \<Longrightarrow> 0 \<le> current_health p \<Longrightarrow> 0 \<le> current_health p'"
  by (cases ev)
    (auto simp: move_fields start_attack_fields Player_update_fields take_damage_health_nonneg)

lemma player_run_health_nonneg:
  "player_run p evs = Inr p' \<Longrightarrow> 0 \<le> current_health p \<Longrightarrow> 0 \<le> current_health p'"
proof (induction evs arbitrary: p)
  case Nil
  then show ?case by simp
next
  case (Cons ev evs)
  then obtain p1 where s: "player_step p ev = Inr p1" and r: "player_run p1 evs = Inr p'"
    by (auto split: sum.splits)
  show ?case
    using Cons.IH [OF r] player_step_health_nonneg [OF s Cons.prems(2)] by simp
qed

text \<open>The state of the invincibility window opened at \<open>t0\<close>, with the health it left.\<close>

lemma player_step_window:
  assumes "player_step p ev = Inr p'" "event_time ev - t0 < D"
    and "is_invincible p" "invincibility_start_time p = t0" "invincibility_duration p = D"
  shows "is_invincible p' \<and> invincibility_start_time p' = t0 \<and> invincibility_duration p' = D
         \<and> current_health p' = current_health p"
proof (cases ev)
  case (Update now)
  then show ?thesis
    using assms by (simp add: Player_update_fields)
next
  case (Move dx dy w h now)
  then show ?thesis
    using assms by (auto simp: move_fields)
next
  case (Attack now)
  then show ?thesis
    using assms by (auto simp: start_attack_fields)
next
  case (Damage damage now)
  then show ?thesis
    using assms by (auto simp: take_damage_rejected)
qed

lemma player_run_window:
  assumes "player_run p evs = Inr p'" "\<forall>ev\<in>set evs. event_time ev - t0 < D"
    and "is_invincible p" "invincibility_start_time p = t0" "invincibility_duration p = D"
  shows "is_invincible p' \<and> current_health p' = current_health p"
  using assms
proof (induction evs arbitrary: p)
  case Nil
  then show ?case by simp
next
  case (Cons ev evs)
  then obtain p1 where s: "player_step p ev = Inr p1" and r: "player_run p1 evs = Inr p'"
    by (auto split: sum.splits)
  have w: "is_invincible p1 \<and> invincibility_start_time p1 = t0 \<and> invincibility_duration p1 = D
         \<and> current_health p1 = current_health p"
    using player_step_window [OF s] Cons.prems by simp
  show ?case
    using Cons.IH [OF r] w Cons.prems(2) by simp
qed

lemma update_after_window:
  assumes "\<not> is_invincible p" "\<not> is_hurt p"
    and "hurt_duration p \<le> invincibility_duration p" "invincibility_duration p \<le> u - t"
    and "Player_update (snd (take_damage p damage t)) u = Inr q"
  shows "\<not> is_invincible q \<and> \<not> is_hurt q"
proof -
  have acc: "fst (take_damage p damage t)"
    using assms(1,2) by (rule take_damage_accepts)
  show ?thesis
    using Player_update_fields(4,5) [OF assms(5)] take_damage_accepted(5-9) [OF acc] assms(3,4)
    by auto
qed


lemma update_attack_state_durations:
  assumes "update_attack_state p now = Inr p'"
  shows "hurt_duration p' = hurt_duration p"
  using assms by (auto simp: update_attack_state_def split: if_splits sum.splits)

lemma Player_update_hurt_duration:
  assumes "Player_update p now = Inr p'"
  shows "hurt_duration p' = hurt_duration p"
  using assms
  by (auto simp: Player_update_def Let_def update_animation_state_def update_movement_timer_def
      update_invincibility_state_def split: if_splits sum.splits
      dest!: update_attack_state_durations)

text \<open>
  Claim C3. (1) From a player with \<^verbatim>\<open>max_health = 3\<close> and \<^verbatim>\<open>current_health = 3\<close>, three
  successful \<^verbatim>\<open>take_damage(1)\<close> calls, with any updates, moves and attacks in between, leave
  \<^verbatim>\<open>current_health = 0\<close> and \<^verbatim>\<open>is_dead()\<close> true, and a fourth call leaves the health at 0.
  (2) Under any sequence of events, with \<^verbatim>\<open>take_damage\<close> calls of any amount among them, a
  health that is not negative stays so. (3) A call is successful when it is made after the
  previous window has expired: after a hit at time \<open>t\<close>, once a frame update has run at
  least \<^verbatim>\<open>invincibility_duration\<close> after \<open>t\<close> (the update is what lowers the hurt and
  invincible flags), the next \<^verbatim>\<open>take_damage\<close> is accepted.
\<close>

theorem three_hits_kill:
  "(current_health p0 = 3 \<and> max_health p0 = 3
      \<and> fst (take_damage p0 1 t1) \<and> list_all (\<lambda>ev. \<not> is_damage ev) evs1
      \<and> player_run (snd (take_damage p0 1 t1)) evs1 = Inr q1
      \<and> fst (take_damage q1 1 t2) \<and> list_all (\<lambda>ev. \<not> is_damage ev) evs2
      \<and> player_run (snd (take_damage q1 1 t2)) evs2 = Inr q2
      \<and> fst (take_damage q2 1 t3) \<and> list_all (\<lambda>ev. \<not> is_damage ev) evs3
      \<and> player_run (snd (take_damage q2 1 t3)) evs3 = Inr q3
    \<longrightarrow> current_health (snd (take_damage q2 1 t3)) = 0 \<and> is_dead (snd (take_damage q2 1 t3))
        \<and> current_health q3 = 0 \<and> is_dead q3
        \<and> current_health (snd (take_damage q3 1 t4)) = 0)
   \<and> (0 \<le> current_health p \<and> player_run p evs = Inr p' \<longrightarrow> 0 \<le> current_health p')
   \<and> (\<not> is_invincible p \<and> \<not> is_hurt p \<and> hurt_duration p \<le> invincibility_duration p
      \<and> invincibility_duration p \<le> u - t
      \<and> Player_update (snd (take_damage p damage t)) u = Inr q
    \<longrightarrow> fst (take_damage q damage' t'))"
proof (intro conjI impI)
  assume h: "current_health p0 = 3 \<and> max_health p0 = 3
      \<and> fst (take_damage p0 1 t1) \<and> list_all (\<lambda>ev. \<not> is_damage ev) evs1
      \<and> player_run (snd (take_damage p0 1 t1)) evs1 = Inr q1
      \<and> fst (take_damage q1 1 t2) \<and> list_all (\<lambda>ev. \<not> is_damage ev) evs2
      \<and> player_run (snd (take_damage q1 1 t2)) evs2 = Inr q2
      \<and> fst (take_damage q2 1 t3) \<and> list_all (\<lambda>ev. \<not> is_damage ev) evs3
      \<and> player_run (snd (take_damage q2 1 t3)) evs3 = Inr q3"
  have 1: "current_health (snd (take_damage p0 1 t1)) = 2"
    using h take_damage_accepted(3) [of p0 1 t1] by simp
  have "current_health q1 = 2"
    using h 1 player_run_health [of "snd (take_damage p0 1 t1)" evs1 q1] by simp
  then have 2: "current_health (snd (take_damage q1 1 t2)) = 1"
    using h take_damage_accepted(3) [of q1 1 t2] by simp
  have "current_health q2 = 1"
    using h 2 player_run_health [of "snd (take_damage q1 1 t2)" evs2 q2] by simp
  then show 3: "current_health (snd (take_damage q2 1 t3)) = 0"
    using h take_damage_accepted(3) [of q2 1 t3] by simp
  then show "is_dead (snd (take_damage q2 1 t3))"
    by (simp add: is_dead_def)
  show q3: "current_health q3 = 0"
    using h 3 player_run_health [of "snd (take_damage q2 1 t3)" evs3 q3] by simp
  then show "is_dead q3"
    by (simp add: is_dead_def)
  show "current_health (snd (take_damage q3 1 t4)) = 0"
    using q3 by (simp add: take_damage_def)
next
  assume "0 \<le> current_health p \<and> player_run p evs = Inr p'"
  then show "0 \<le> current_health p'"
    using player_run_health_nonneg by blast
next
  assume "\<not> is_invincible p \<and> \<not> is_hurt p \<and> hurt_duration p \<le> invincibility_duration p
      \<and> invincibility_duration p \<le> u - t
      \<and> Player_update (snd (take_damage p damage t)) u = Inr q"
  then have "\<not> is_invincible q \<and> \<not> is_hurt q"
    using update_after_window [of p u t damage q] by blast
  then show "fst (take_damage q damage' t')"
    by (simp add: take_damage_accepts)
qed

lemma fresh_after_hit_and_update:
  assumes "\<not> is_invincible p" "\<not> is_hurt p" "player_ok p"
    and "hurt_duration p = 1" "invincibility_duration p = 15 / 10" "15 / 10 \<le> u - t"
  shows "\<exists>q. Player_update (snd (take_damage p 1 t)) u = Inr q \<and> player_ok q
     \<and> hurt_duration q = 1 \<and> invincibility_duration q = 15 / 10"
proof -
  have acc: "fst (take_damage p 1 t)"
    using assms(1,2) by (rule take_damage_accepts)
  obtain q where q: "Player_update (snd (take_damage p 1 t)) u = Inr q" "player_ok q"
    using player_ok_update [OF player_ok_take_damage [OF assms(3)]] by blast
  then show ?thesis
    using Player_update_hurt_duration [OF q(1)] Player_update_fields(3) [OF q(1)]
      take_damage_accepted(6,9) [OF acc] assms(4,5) by simp
qed

theorem three_hits_kill_witness:
  "\<exists>q. player_run (Player_init 0 0 0)
          [Damage 1 1, Update (5 / 2), Damage 1 3, Update (9 / 2), Damage 1 5, Update (13 / 2)]
        = Inr q
      \<and> current_health q = 0 \<and> is_dead q \<and> current_health (snd (take_damage q 1 7)) = 0"
proof -
  let ?P0 = "Player_init 0 0 0"
  have p0: "\<not> is_invincible ?P0" "\<not> is_hurt ?P0" "hurt_duration ?P0 = 1"
    "invincibility_duration ?P0 = 15 / 10" "current_health ?P0 = 3" "max_health ?P0 = 3"
    by (simp_all add: Player_init_def)
  have a0: "fst (take_damage ?P0 1 1)"
    using p0 by (simp add: take_damage_accepts)
  obtain q1 where q1: "Player_update (snd (take_damage ?P0 1 1)) (5 / 2) = Inr q1" "player_ok q1"
      "hurt_duration q1 = 1" "invincibility_duration q1 = 15 / 10"
    using fresh_after_hit_and_update [of ?P0 "5 / 2" 1] p0 player_ok_init by auto
  have a1: "fst (take_damage q1 1 3)"
    using three_hits_kill [where p = ?P0 and u = "5 / 2" and t = 1 and damage = 1 and q = q1
        and damage' = 1 and t' = 3] p0 q1(1)
    by simp
  have f1: "\<not> is_invincible q1" "\<not> is_hurt q1"
    using take_damage_accepted(1,2) [OF a1] by simp_all
  obtain q2 where q2: "Player_update (snd (take_damage q1 1 3)) (9 / 2) = Inr q2" "player_ok q2"
      "hurt_duration q2 = 1" "invincibility_duration q2 = 15 / 10"
    using fresh_after_hit_and_update [of q1 "9 / 2" 3] f1 q1 by auto
  have a2: "fst (take_damage q2 1 5)"
    using three_hits_kill [where p = q1 and u = "9 / 2" and t = 3 and damage = 1 and q = q2
        and damage' = 1 and t' = 5] f1 q1 q2(1)
    by simp
  have f2: "\<not> is_invincible q2" "\<not> is_hurt q2"
    using take_damage_accepted(1,2) [OF a2] by simp_all
  obtain q3 where q3: "Player_update (snd (take_damage q2 1 5)) (13 / 2) = Inr q3" "player_ok q3"
      "hurt_duration q3 = 1" "invincibility_duration q3 = 15 / 10"
    using fresh_after_hit_and_update [of q2 "13 / 2" 5] f2 q2 by auto
  have run: "player_run ?P0
          [Damage 1 1, Update (5 / 2), Damage 1 3, Update (9 / 2), Damage 1 5, Update (13 / 2)]
        = Inr q3"
    by (simp add: q1(1) q2(1) q3(1))
  have "current_health q3 = 0 \<and> is_dead q3 \<and> current_health (snd (take_damage q3 1 7)) = 0"
    using three_hits_kill [of ?P0 1 "[Update (5 / 2)]" q1 3 "[Update (9 / 2)]" q2 5
        "[Update (13 / 2)]" q3 7] p0 a0 a1 a2 q1(1) q2(1) q3(1)
    by simp
  moreover have "0 \<le> current_health q3"
    using three_hits_kill [where p = ?P0 and p' = q3 and evs =
        "[Damage 1 1, Update (5 / 2), Damage 1 3, Update (9 / 2), Damage 1 5, Update (13 / 2)]"]
      run p0(5) by simp
  ultimately show ?thesis
    using run by blast
qed

text \<open>
  Claim C4, as amended. Of two \<^verbatim>\<open>take_damage\<close> calls made less than
  \<^verbatim>\<open>invincibility_duration\<close> apart, with any updates, moves, attacks and further damage
  attempts in between (none of them later than the second call), at most one is accepted.
  When the first call of the pair is accepted (it decrements the health), the second finds
  the player invincible, returns \<open>False\<close> and leaves the whole player as it was, so the
  health is the one the first call left.
\<close>

theorem second_hit_rejected:
  assumes "player_run (snd (take_damage p damage t0)) evs = Inr p2"
    and "\<forall>ev\<in>set evs. event_time ev \<le> t1"
    and "t1 - t0 < invincibility_duration p"
  shows "\<not> (fst (take_damage p damage t0) \<and> fst (take_damage p2 damage' t1))
       \<and> (fst (take_damage p damage t0) \<longrightarrow>
            (is_invincible p2 \<or> is_hurt p2)
          \<and> take_damage p2 damage' t1 = (False, p2)
          \<and> current_health p2 = current_health (snd (take_damage p damage t0))
          \<and> current_health p2 = max 0 (current_health p - damage))"
proof (cases "fst (take_damage p damage t0)")
  case False
  then show ?thesis by simp
next
  case True
  have win: "\<forall>ev\<in>set evs. event_time ev - t0 < invincibility_duration p"
    using assms(2,3) by auto
  have "is_invincible p2 \<and> current_health p2 = current_health (snd (take_damage p damage t0))"
    using player_run_window [OF assms(1) win] take_damage_accepted(4-6) [OF True]
    by simp
  then show ?thesis
    using take_damage_accepted(3) [OF True] by (simp add: take_damage_rejected)
qed

text \<open>
  The claim as stated (the second call of every such pair returns \<open>False\<close>) fails when the
  first call of the pair is itself rejected. A hit at time 0 opens the window; a call at
  1.4 is rejected; the frame update at 1.5 lowers the hurt and invincible flags; a call at
  1.6, 0.2 s after the rejected one, is accepted and takes the health from 2 to 1.
\<close>

theorem second_hit_accepted_counterexample:
  "fst (take_damage (Player_init 0 0 0) 1 0)
   \<and> \<not> fst (take_damage (snd (take_damage (Player_init 0 0 0) 1 0)) 1 (7 / 5))
   \<and> \<not> isl (player_run (snd (take_damage (snd (take_damage (Player_init 0 0 0) 1 0)) 1 (7 / 5)))
              [Update (3 / 2)])
   \<and> (8 / 5 - 7 / 5 :: real) < invincibility_duration (Player_init 0 0 0)
   \<and> fst (take_damage
        (projr (player_run
           (snd (take_damage (snd (take_damage (Player_init 0 0 0) 1 0)) 1 (7 / 5)))
           [Update (3 / 2)])) 1 (8 / 5))
   \<and> current_health
        (projr (player_run
           (snd (take_damage (snd (take_damage (Player_init 0 0 0) 1 0)) 1 (7 / 5)))
           [Update (3 / 2)])) = 2
   \<and> current_health (snd (take_damage
        (projr (player_run
           (snd (take_damage (snd (take_damage (Player_init 0 0 0) 1 0)) 1 (7 / 5)))
           [Update (3 / 2)])) 1 (8 / 5))) = 1"
proof -
  let ?P0 = "Player_init 0 0 0"
  let ?hit = "snd (take_damage ?P0 1 0)"
  have p0: "\<not> is_invincible ?P0" "\<not> is_hurt ?P0" "hurt_duration ?P0 = 1"
    "invincibility_duration ?P0 = 15 / 10" "current_health ?P0 = 3"
    by (simp_all add: Player_init_def)
  have a0: "fst (take_damage ?P0 1 0)"
    using p0 by (simp add: take_damage_accepts)
  have h: "is_invincible ?hit" "current_health ?hit = 2"
    using take_damage_accepted(3,4) [OF a0] p0 by simp_all
  have a: "take_damage ?hit 1 (7 / 5) = (False, ?hit)"
    using h(1) by (simp add: take_damage_rejected)
  obtain q where q: "Player_update ?hit (3 / 2) = Inr q"
    using fresh_after_hit_and_update [of ?P0 "3 / 2" 0] p0 player_ok_init by auto
  have run: "player_run (snd (take_damage ?hit 1 (7 / 5))) [Update (3 / 2)] = Inr q"
    by (simp add: a q)
  have fresh: "\<not> is_invincible q \<and> \<not> is_hurt q"
    using update_after_window [of ?P0 "3 / 2" 0 1 q] p0 q by simp
  have hq: "current_health q = 2"
    using Player_update_fields(1) [OF q] h(2) by simp
  have b: "fst (take_damage q 1 (8 / 5))"
    using fresh by (simp add: take_damage_accepts)
  have hb: "current_health (snd (take_damage q 1 (8 / 5))) = 1"
    using take_damage_accepted(3) [OF b] hq by simp
  have nr: "\<not> isl (player_run (snd (take_damage ?hit 1 (7 / 5))) [Update (3 / 2)])"
    by (simp only: run sum.disc simp_thms)
  have pr: "projr (player_run (snd (take_damage ?hit 1 (7 / 5))) [Update (3 / 2)]) = q"
    by (simp only: run sum.sel)
  have na: "\<not> fst (take_damage ?hit 1 (7 / 5))"
    by (simp only: a fst_conv simp_thms)
  have near: "(8 / 5 - 7 / 5 :: real) < invincibility_duration ?P0"
    by (simp add: p0(4))
  show ?thesis
    unfolding pr by (intro conjI a0 na nr near b hq hb)
qed

theorem second_hit_rejected_witness:
  "\<exists>p2. player_run (snd (take_damage (Player_init 0 0 0) 1 1))
           [Update 2, Move 1 0 320 240 (21 / 10), Damage 1 (22 / 10), Update (23 / 10)] = Inr p2
      \<and> take_damage p2 1 (24 / 10) = (False, p2) \<and> current_health p2 = 2"
proof -
  let ?P0 = "Player_init 0 0 0"
  let ?evs = "[Update 2, Move 1 0 320 240 (21 / 10), Damage 1 (22 / 10), Update (23 / 10)]"
  have p0: "\<not> is_invincible ?P0" "\<not> is_hurt ?P0" "invincibility_duration ?P0 = 15 / 10"
    "current_health ?P0 = 3"
    by (simp_all add: Player_init_def)
  have a0: "fst (take_damage ?P0 1 1)"
    using p0 by (simp add: take_damage_accepts)
  obtain p2 where run: "player_run (snd (take_damage ?P0 1 1)) ?evs = Inr p2"
    using player_ok_run [OF player_ok_take_damage [OF player_ok_init]] by blast
  have times: "\<forall>ev\<in>set ?evs. event_time ev \<le> 24 / 10"
    by simp
  have "take_damage p2 1 (24 / 10) = (False, p2) \<and> current_health p2 = 2"
    using second_hit_rejected [OF run times, of 1] a0 p0 by simp
  then show ?thesis
    using run by blast
qed

section \<open>Properties of Enemy.update\<close>

lemma enemy_play_fields:
  "movement_state (enemy_play e kind reset now) = movement_state e"
  "blocks_moved (enemy_play e kind reset now) = blocks_moved e"
  "e_x (enemy_play e kind reset now) = e_x e"
  "e_y (enemy_play e kind reset now) = e_y e"
  "idle_start_time (enemy_play e kind reset now) = idle_start_time e"
  "e_facing_direction (enemy_play e kind reset now) = e_facing_direction e"
  "e_last_move_time (enemy_play e kind reset now) = e_last_move_time e"
  by (simp_all add: enemy_play_def)

lemma sprite_ok_enemy_play:
  "sprite_ok (e_sprite e) \<Longrightarrow> sprite_ok (e_sprite (enemy_play e kind reset now))"
  by (simp add: enemy_play_def sprite_ok_play_animation)

lemma enemy_ai_blocked:
  assumes "movement_state e = ''moving''" "move_cooldown e \<le> now - e_last_move_time e"
    and "is_position_blocked g (e_x e + fst (enemy_direction e) * TILE_SIZE)
           (e_y e + snd (enemy_direction e) * TILE_SIZE) = Inr True"
  shows "enemy_ai e (Some g) now =
     Inr (enemy_play (e\<lparr> movement_state := ''idle'', idle_start_time := now,
                          blocks_moved := 0 \<rparr>) ''idle'' True now)"
  using assms by (simp add: enemy_ai_def Let_def)

text \<open>
  Claim C6. An enemy in the state \<^verbatim>\<open>'moving'\<close> whose \<^verbatim>\<open>move_cooldown\<close> has elapsed and whose
  next step is blocked by the collision query goes to \<^verbatim>\<open>'idle'\<close> in that same
  \<^verbatim>\<open>update\<close>, whatever \<^verbatim>\<open>blocks_moved\<close> and \<^verbatim>\<open>blocks\<close> are: \<^verbatim>\<open>blocks_moved\<close> is reset to 0,
  the idle period starts now, and the position, the facing direction and
  \<^verbatim>\<open>last_move_time\<close> are unchanged (no step, no retry, no turn). The call does not raise.
\<close>

theorem enemy_blocked_goes_idle:
  assumes "movement_state e = ''moving''" "move_cooldown e \<le> now - e_last_move_time e"
    and "is_position_blocked g (e_x e + fst (enemy_direction e) * TILE_SIZE)
           (e_y e + snd (enemy_direction e) * TILE_SIZE) = Inr True"
    and "sprite_ok (e_sprite e)"
  shows "\<exists>e'. Enemy_update e (Some g) now = Inr e'
      \<and> movement_state e' = ''idle'' \<and> blocks_moved e' = 0 \<and> idle_start_time e' = now
      \<and> e_x e' = e_x e \<and> e_y e' = e_y e
      \<and> e_facing_direction e' = e_facing_direction e
      \<and> e_last_move_time e' = e_last_move_time e"
proof -
  let ?e1 = "enemy_play (e\<lparr> movement_state := ''idle'', idle_start_time := now,
                            blocks_moved := 0 \<rparr>) ''idle'' True now"
  have ai: "enemy_ai e (Some g) now = Inr ?e1"
    using assms(1-3) by (rule enemy_ai_blocked)
  have "sprite_ok (e_sprite ?e1)"
    using assms(4) by (simp add: sprite_ok_enemy_play)
  then obtain s where "AnimatedSprite_update (e_sprite ?e1) now = Inr s"
    using sprite_ok_update by blast
  then have "Enemy_update e (Some g) now = Inr (?e1\<lparr> e_sprite := s \<rparr>)"
    by (simp add: Enemy_update_def ai)
  then show ?thesis
    by (simp add: enemy_play_fields)
qed

theorem enemy_blocked_goes_idle_witness:
  "\<exists>e'. Enemy_update (Enemy_init 16 0 ''rat'' ''horizontal'' 2 0)
           (Some [[False, False, True, False]]) 1 = Inr e'
      \<and> movement_state e' = ''idle'' \<and> blocks_moved e' = 0 \<and> idle_start_time e' = 1
      \<and> e_x e' = 16 \<and> e_y e' = 0 \<and> e_facing_direction e' = ''right''"
proof -
  let ?e = "Enemy_init 16 0 ''rat'' ''horizontal'' 2 0"
  have f: "movement_state ?e = ''moving''" "e_last_move_time ?e = 0" "move_cooldown ?e = 3 / 10"
    "e_x ?e = 16" "e_y ?e = 0" "e_facing_direction ?e = ''right''" "enemy_direction ?e = (1, 0)"
    by (simp_all add: Enemy_init_def TILE_SIZE_def enemy_direction_def)
  have ok: "sprite_ok (e_sprite ?e)"
    by (simp add: Enemy_init_def sprite_ok_play_animation sprite_ok_init)
  have b: "is_position_blocked [[False, False, True, False]]
             (e_x ?e + fst (enemy_direction ?e) * TILE_SIZE)
             (e_y ?e + snd (enemy_direction ?e) * TILE_SIZE) = Inr True"
    by (simp add: f is_position_blocked_def is_tile_blocked_def TILE_SIZE_def)
  have c: "move_cooldown ?e \<le> 1 - e_last_move_time ?e"
    by (simp add: f)
  show ?thesis
    using enemy_blocked_goes_idle [OF f(1) c b ok] by (auto simp: f)
qed

section \<open>Properties of LevelLoader.move_player\<close>

lemma get_player_None: "player L = None \<Longrightarrow> get_player L = None"
  by (simp add: get_player_def)



text \<open>
  Claim C10. \<^verbatim>\<open>move_player(dx, dy)\<close> checks the collision grid before it asks the player to
  move: when the tile one step from the player in the requested direction is blocked, the
  call returns \<open>False\<close> and nothing changes (so the player's position is unchanged); when
  there is no player, it returns \<open>False\<close> as well.
\<close>

theorem move_player_blocked:
  "(get_player L = Some p
      \<and> is_position_blocked (collision_grid L) (p_x p + dx * TILE_SIZE) (p_y p + dy * TILE_SIZE)
          = Inr True
    \<longrightarrow> move_player L dx dy current_time = Inr (False, L))
   \<and> (player L = None \<longrightarrow> move_player L dx dy current_time = Inr (False, L))"
proof (intro conjI impI)
  assume "get_player L = Some p
      \<and> is_position_blocked (collision_grid L) (p_x p + dx * TILE_SIZE) (p_y p + dy * TILE_SIZE)
          = Inr True"
  then show "move_player L dx dy current_time = Inr (False, L)"
    by (simp add: move_player_def Let_def)
next
  assume "player L = None"
  then show "move_player L dx dy current_time = Inr (False, L)"
    by (simp add: move_player_def get_player_None)
qed

theorem move_player_blocked_witness:
  "move_player one_tile_corridor 1 0 1 = Inr (False, one_tile_corridor)
   \<and> move_player one_tile_corridor 0 1 1 = Inr (False, one_tile_corridor)
   \<and> move_player (one_tile_corridor\<lparr> entities := [], player := None \<rparr>) 1 0 1
       = Inr (False, one_tile_corridor\<lparr> entities := [], player := None \<rparr>)"
proof -
  let ?p = "Player_init 0 0 0"
  have g: "get_player one_tile_corridor = Some ?p"
    by (simp add: get_player_def one_tile_corridor_def)
  have pos: "p_x ?p = 0" "p_y ?p = 0"
    by (simp_all add: Player_init_def)
  have b1: "is_position_blocked (collision_grid one_tile_corridor)
      (p_x ?p + 1 * TILE_SIZE) (p_y ?p + 0 * TILE_SIZE) = Inr True"
    by (simp add: pos one_tile_corridor_def is_position_blocked_def is_tile_blocked_def
        TILE_SIZE_def)
  have b2: "is_position_blocked (collision_grid one_tile_corridor)
      (p_x ?p + 0 * TILE_SIZE) (p_y ?p + 1 * TILE_SIZE) = Inr True"
    by (simp add: pos one_tile_corridor_def is_position_blocked_def is_tile_blocked_def
        TILE_SIZE_def)
  have 1: "move_player one_tile_corridor 1 0 1 = Inr (False, one_tile_corridor)"
    using move_player_blocked [of one_tile_corridor ?p 1 0 1] g b1 by blast
  have 2: "move_player one_tile_corridor 0 1 1 = Inr (False, one_tile_corridor)"
    using move_player_blocked [of one_tile_corridor ?p 0 1 1] g b2 by blast
  have 3: "move_player (one_tile_corridor\<lparr> entities := [], player := None \<rparr>) 1 0 1
       = Inr (False, one_tile_corridor\<lparr> entities := [], player := None \<rparr>)"
    using move_player_blocked [of "one_tile_corridor\<lparr> entities := [], player := None \<rparr>" _ 1 0 1]
    by simp
  show ?thesis
    by (intro conjI 1 2 3)
qed

section \<open>Properties of the frame update\<close>














section \<open>Properties of LevelLoader.load_current_level\<close>



















end
